theory Spec2Isabelle
  imports Complex_Main "HOL-Library.Log_Nat"
begin

section \<open>JavaScript numbers\<close>

text \<open>
  A number is a binary64 value: a finite one, given by the rational it denotes, an
  infinity, or \<open>NaN\<close>. The two zeros are one value here: no function below divides by a
  computed number or prints a sign, so they cannot be told apart. The type admits every
  rational; the numbers the code reads are binary64 values, and every arithmetic
  operation returns the exact result rounded by \<open>round64\<close>: to the nearest binary64
  value, ties to the even significand, with 53 bits of precision, the subnormal spacing
  \<open>2^-1074\<close> below \<open>2^-1022\<close>, and overflow to an infinity from \<open>2^1024\<close> on.
\<close>

datatype number = Num rat | PosInfinity | NegInfinity | NaN

definition pow2 :: "int \<Rightarrow> rat" where
  "pow2 e = (if e \<ge> 0 then 2 ^ nat e else 1 / 2 ^ nat (- e))"

text \<open>\<open>ilog2 x\<close> is the integer \<open>e\<close> with \<open>2^e \<le> |x| < 2^(e+1)\<close>, for \<open>x \<noteq> 0\<close>.\<close>

definition ilog2 :: "rat \<Rightarrow> int" where
  "ilog2 x = (case quotient_of \<bar>x\<bar> of (a, b) \<Rightarrow>
                let e = bitlen a - bitlen b in if pow2 e \<le> \<bar>x\<bar> then e else e - 1)"

definition round_half_even :: "rat \<Rightarrow> int" where
  "round_half_even r =
     (let f = \<lfloor>r\<rfloor>; d = r - of_int f
      in if d < 1 / 2 then f else if d > 1 / 2 then f + 1 else if even f then f else f + 1)"

definition round64 :: "rat \<Rightarrow> number" where
  "round64 x =
     (if x = 0 then Num 0
      else let e = max (ilog2 x) (- 1022);
               ulp = pow2 (e - 52);
               y = of_int (round_half_even (x / ulp)) * ulp
           in if \<bar>y\<bar> \<ge> pow2 1024 then (if x > 0 then PosInfinity else NegInfinity)
              else Num y)"

fun fneg :: "number \<Rightarrow> number" where
  "fneg (Num a) = Num (- a)"
| "fneg PosInfinity = NegInfinity"
| "fneg NegInfinity = PosInfinity"
| "fneg NaN = NaN"

text \<open>\<open>x + y\<close>, \<open>x - y\<close>, \<open>x * y\<close>, \<open>x / y\<close> and \<open>x > y\<close> on numbers.\<close>

fun fadd :: "number \<Rightarrow> number \<Rightarrow> number" where
  "fadd (Num a) (Num b) = round64 (a + b)"
| "fadd NaN y = NaN"
| "fadd x NaN = NaN"
| "fadd PosInfinity NegInfinity = NaN"
| "fadd NegInfinity PosInfinity = NaN"
| "fadd PosInfinity y = PosInfinity"
| "fadd x PosInfinity = PosInfinity"
| "fadd NegInfinity y = NegInfinity"
| "fadd x NegInfinity = NegInfinity"

definition fsub :: "number \<Rightarrow> number \<Rightarrow> number" where
  "fsub x y = fadd x (fneg y)"

fun fmul :: "number \<Rightarrow> number \<Rightarrow> number" where
  "fmul (Num a) (Num b) = round64 (a * b)"
| "fmul NaN y = NaN"
| "fmul x NaN = NaN"
| "fmul PosInfinity (Num b) =
     (if b = 0 then NaN else if b > 0 then PosInfinity else NegInfinity)"
| "fmul NegInfinity (Num b) =
     (if b = 0 then NaN else if b > 0 then NegInfinity else PosInfinity)"
| "fmul (Num a) PosInfinity =
     (if a = 0 then NaN else if a > 0 then PosInfinity else NegInfinity)"
| "fmul (Num a) NegInfinity =
     (if a = 0 then NaN else if a > 0 then NegInfinity else PosInfinity)"
| "fmul PosInfinity PosInfinity = PosInfinity"
| "fmul PosInfinity NegInfinity = NegInfinity"
| "fmul NegInfinity PosInfinity = NegInfinity"
| "fmul NegInfinity NegInfinity = PosInfinity"

text \<open>
  Division; a zero divisor is taken as \<open>+0\<close>. The only division in the code is by the
  constant \<open>1000 * 60 * 60\<close>.
\<close>

fun fdiv :: "number \<Rightarrow> number \<Rightarrow> number" where
  "fdiv (Num a) (Num b) =
     (if b = 0 then (if a = 0 then NaN else if a > 0 then PosInfinity else NegInfinity)
      else round64 (a / b))"
| "fdiv NaN y = NaN"
| "fdiv x NaN = NaN"
| "fdiv (Num a) PosInfinity = Num 0"
| "fdiv (Num a) NegInfinity = Num 0"
| "fdiv PosInfinity (Num b) = (if b \<ge> 0 then PosInfinity else NegInfinity)"
| "fdiv NegInfinity (Num b) = (if b \<ge> 0 then NegInfinity else PosInfinity)"
| "fdiv x y = NaN"

fun fgt :: "number \<Rightarrow> number \<Rightarrow> bool" where
  "fgt (Num a) (Num b) = (a > b)"
| "fgt NaN y = False"
| "fgt x NaN = False"
| "fgt PosInfinity PosInfinity = False"
| "fgt PosInfinity y = True"
| "fgt NegInfinity y = False"
| "fgt x NegInfinity = True"
| "fgt x PosInfinity = False"

text \<open>
  \<open>xs.reduce((sum, x) => sum + x, 0)\<close>: the sum of a list of numbers, accumulated
  from 0 in the order of the list, each addition rounded.
\<close>

definition sum_doubles :: "number list \<Rightarrow> number" where
  "sum_doubles xs = foldl fadd (Num 0) xs"

text \<open>A date as a number, for date arithmetic.\<close>

definition getTime :: "int \<Rightarrow> number" where
  "getTime t = round64 (of_int t)"

section \<open>Data model\<close>

text \<open>
  The backend keeps five tables (users, clients, contracts, activities, invoices) behind
  the Prisma client. Identifiers are UUID strings, timestamps are JavaScript dates
  (milliseconds since the epoch, an integer of magnitude at most 8.64e15), and hours,
  rates and amounts are JavaScript numbers, stored as \<open>DOUBLE PRECISION\<close>: binary64
  values, with the arithmetic of the section above. The columns \<open>createdAt\<close>, \<open>updatedAt\<close>, \<open>generatedAt\<close> and \<open>evidenceUrl\<close> are
  written by no function modelled here and are left out.
\<close>

type_synonym ident = string
type_synonym instant = int

datatype ActivityStatus = UNASSIGNED | SCHEDULED | IN_PROGRESS | DONE | VERIFIED | INVOICED
datatype InvoiceType = CLIENT_BILL | WORKER_PAYOUT
datatype InvoiceStatus = DRAFT | SENT | PAID
datatype ContractStatus = ACTIVE | CLOSED
datatype UserRole = ADMIN | WORKER

record activity =
  act_id :: ident
  title :: string
  contractId :: "ident option"
  clientId :: ident
  workerId :: "ident option"
  status :: ActivityStatus
  scheduledStart :: instant
  scheduledEnd :: instant
  durationHours :: number
  location :: string
  description :: "string option"

record client =
  client_id :: ident
  client_name :: string
  contactName :: string
  client_email :: string
  billingRate :: "number option"

record user =
  user_id :: ident
  user_name :: string
  role :: UserRole
  user_email :: string
  hourlyRate :: number
  specialty :: "string option"

record contract =
  contract_id :: ident
  contract_clientId :: ident
  orderNumber :: string
  totalHours :: number
  startDate :: instant
  endDate :: instant
  contract_status :: ContractStatus

record invoice =
  inv_id :: ident
  inv_type :: InvoiceType
  entityId :: ident
  totalAmount :: number
  periodStart :: instant
  periodEnd :: instant
  inv_status :: InvoiceStatus
  inv_clientId :: "ident option"
  inv_workerId :: "ident option"

record store =
  activities :: "activity list"
  clients :: "client list"
  users :: "user list"
  contracts :: "contract list"
  invoices :: "invoice list"

text \<open>
  A property of a JSON body or of a Prisma \<open>data\<close> object is absent (\<open>undefined\<close>),
  \<open>null\<close>, or a value. Prisma skips an \<open>undefined\<close> property of \<open>data\<close> and writes
  \<open>NULL\<close> for a \<open>null\<close> one.
\<close>

datatype 'a property = Undefined | Null | Val 'a

fun write_field :: "'a property \<Rightarrow> 'a option \<Rightarrow> 'a option" where
  "write_field Undefined old = old"
| "write_field Null old = None"
| "write_field (Val v) old = Some v"

text \<open>JavaScript truthiness of an optional string: absent, \<open>null\<close> and \<open>""\<close> are falsy.\<close>

fun truthy :: "string property \<Rightarrow> bool" where
  "truthy (Val v) = (v \<noteq> [])"
| "truthy _ = False"

section \<open>Failures\<close>

text \<open>
  Everything a request handler can answer instead of its result:
  \<^item> \<open>ZodError\<close>: a schema of \<open>lib/validations.js\<close> rejected the body;
  \<^item> \<open>NotFoundError r\<close>: \<open>AppError(r + ' not found', 404)\<close>;
  \<^item> \<open>InsufficientHours r\<close>: \<open>AppError('Insufficient hours. Remaining: ' + r, 400)\<close>;
  \<^item> \<open>PrismaError c\<close>: a Prisma error with code \<open>c\<close> (\<open>P2025\<close> record not found,
    \<open>P2003\<close> foreign key violated);
  \<^item> \<open>TypeError\<close>: a property read on \<open>null\<close>;
  \<^item> \<open>WorkerConflict cs\<close>: the 409 answer of \<open>assignWorker\<close>, carrying the conflicts;
  \<^item> \<open>InvalidInvoiceType\<close>: the 400 answer of the invoice endpoints.
  \<open>errorHandler\<close> is the status code \<open>middleware/errorHandler.js\<close> answers with (for
  the last two, the code the controller sets itself).
\<close>

datatype failure =
    ZodError
  | NotFoundError string
  | InsufficientHours number
  | PrismaError string
  | TypeError
  | WorkerConflict "activity list"
  | InvalidInvoiceType

fun errorHandler :: "failure \<Rightarrow> nat" where
  "errorHandler ZodError = 400"
| "errorHandler (PrismaError c) =
     (if c = ''P2002'' then 409 else if c = ''P2025'' then 404 else 500)"
| "errorHandler (NotFoundError r) = 404"
| "errorHandler (InsufficientHours r) = 400"
| "errorHandler TypeError = 500"
| "errorHandler (WorkerConflict cs) = 409"
| "errorHandler InvalidInvoiceType = 400"

section \<open>Availability checker (services/activityService.js)\<close>

record availability =
  available :: bool
  conflictingActivities :: "activity list"

text \<open>
  The \<open>where\<close> clause of \<open>checkWorkerAvailability\<close>. The exclusion is spread into the
  filter only when \<open>excludeActivityId\<close> is truthy.
\<close>

definition not_excluded :: "string property \<Rightarrow> activity \<Rightarrow> bool" where
  "not_excluded excludeActivityId a =
     (case excludeActivityId of
        Val e \<Rightarrow> (if e \<noteq> [] then act_id a \<noteq> e else True)
      | _ \<Rightarrow> True)"

definition conflicts_with :: "ident \<Rightarrow> instant \<Rightarrow> instant \<Rightarrow> string property \<Rightarrow> activity \<Rightarrow> bool" where
  "conflicts_with wid sStart sEnd excludeActivityId a =
     (workerId a = Some wid \<and>
      not_excluded excludeActivityId a \<and>
      (status a = SCHEDULED \<or> status a = IN_PROGRESS) \<and>
      scheduledStart a \<le> sEnd \<and> scheduledEnd a \<ge> sStart)"

definition checkWorkerAvailability ::
  "ident \<Rightarrow> instant \<Rightarrow> instant \<Rightarrow> string property \<Rightarrow> store \<Rightarrow> availability" where
  "checkWorkerAvailability wid sStart sEnd excludeActivityId s =
     (let conflicting = filter (conflicts_with wid sStart sEnd excludeActivityId) (activities s)
      in \<lparr>available = (length conflicting = 0), conflictingActivities = conflicting\<rparr>)"

section \<open>The store's operations, as the code calls them\<close>

definition activity_findUnique :: "ident \<Rightarrow> store \<Rightarrow> activity option" where
  "activity_findUnique i s = find (\<lambda>a. act_id a = i) (activities s)"

definition client_findUnique :: "ident \<Rightarrow> store \<Rightarrow> client option" where
  "client_findUnique i s = find (\<lambda>c. client_id c = i) (clients s)"

definition user_findUnique :: "ident \<Rightarrow> store \<Rightarrow> user option" where
  "user_findUnique i s = find (\<lambda>u. user_id u = i) (users s)"

definition contract_findUnique :: "ident \<Rightarrow> store \<Rightarrow> contract option" where
  "contract_findUnique i s = find (\<lambda>c. contract_id c = i) (contracts s)"

text \<open>
  The foreign keys of the \<open>activities\<close> table (the migration's \<open>ADD CONSTRAINT\<close>
  clauses): a written \<open>clientId\<close>, \<open>contractId\<close> or \<open>workerId\<close> must name a row. The
  database checks a key on insert, and on update when the column changes.
\<close>

definition references_ok :: "store \<Rightarrow> activity \<Rightarrow> bool" where
  "references_ok s a =
     (clientId a \<in> set (map client_id (clients s)) \<and>
      (case contractId a of None \<Rightarrow> True | Some k \<Rightarrow> k \<in> set (map contract_id (contracts s))) \<and>
      (case workerId a of None \<Rightarrow> True | Some w \<Rightarrow> w \<in> set (map user_id (users s))))"

definition references_ok_update :: "store \<Rightarrow> activity \<Rightarrow> activity \<Rightarrow> bool" where
  "references_ok_update s old new =
     ((clientId new = clientId old \<or> clientId new \<in> set (map client_id (clients s))) \<and>
      (contractId new = contractId old \<or>
         (case contractId new of None \<Rightarrow> True | Some k \<Rightarrow> k \<in> set (map contract_id (contracts s)))) \<and>
      (workerId new = workerId old \<or>
         (case workerId new of None \<Rightarrow> True | Some w \<Rightarrow> w \<in> set (map user_id (users s)))))"

type_synonym 'a outcome = "(failure + 'a) \<times> store"

text \<open>\<open>prisma.activity.create\<close>: the row is appended, unless a foreign key fails.\<close>

definition activity_create :: "activity \<Rightarrow> store \<Rightarrow> activity outcome" where
  "activity_create a s =
     (if references_ok s a then (Inr a, s\<lparr>activities := activities s @ [a]\<rparr>)
      else (Inl (PrismaError ''P2003''), s))"

text \<open>
  \<open>prisma.activity.update({where: {id}, data})\<close>: \<open>P2025\<close> when no row has the id;
  otherwise the row is rewritten by \<open>f\<close> (the \<open>data\<close> object) and returned.
\<close>

definition activity_update :: "ident \<Rightarrow> (activity \<Rightarrow> activity) \<Rightarrow> store \<Rightarrow> activity outcome" where
  "activity_update i f s =
     (case activity_findUnique i s of
        None \<Rightarrow> (Inl (PrismaError ''P2025''), s)
      | Some a \<Rightarrow>
          if references_ok_update s a (f a)
          then (Inr (f a),
                s\<lparr>activities := map (\<lambda>x. if act_id x = i then f x else x) (activities s)\<rparr>)
          else (Inl (PrismaError ''P2003''), s))"

text \<open>\<open>prisma.activity.updateMany({where: {id: {in: ids}}, data})\<close>.\<close>

definition activity_updateMany :: "ident list \<Rightarrow> (activity \<Rightarrow> activity) \<Rightarrow> store \<Rightarrow> store" where
  "activity_updateMany ids f s =
     s\<lparr>activities := map (\<lambda>x. if act_id x \<in> set ids then f x else x) (activities s)\<rparr>"

definition invoice_create :: "invoice \<Rightarrow> store \<Rightarrow> store" where
  "invoice_create i s = s\<lparr>invoices := invoices s @ [i]\<rparr>"

section \<open>Invoice generator (services/invoiceService.js)\<close>

definition client_selection :: "ident \<Rightarrow> instant \<Rightarrow> instant \<Rightarrow> activity \<Rightarrow> bool" where
  "client_selection cid pStart pEnd a =
     (clientId a = cid \<and> status a = VERIFIED \<and>
      scheduledStart a \<ge> pStart \<and> scheduledEnd a \<le> pEnd)"

definition worker_selection :: "ident \<Rightarrow> instant \<Rightarrow> instant \<Rightarrow> activity \<Rightarrow> bool" where
  "worker_selection wid pStart pEnd a =
     (workerId a = Some wid \<and> status a = VERIFIED \<and>
      scheduledStart a \<ge> pStart \<and> scheduledEnd a \<le> pEnd)"

text \<open>\<open>client.billingRate || 0\<close>: \<open>null\<close>, \<open>0\<close> and \<open>NaN\<close> are falsy.\<close>

definition or_zero :: "number option \<Rightarrow> number" where
  "or_zero r = (case r of None \<Rightarrow> Num 0
                | Some v \<Rightarrow> if v = Num 0 \<or> v = NaN then Num 0 else v)"

text \<open>
  \<open>generateClientInvoice\<close>. \<open>new_id\<close> is the identifier the store gives the new
  invoice. The client is read after the activities, and \<open>client.billingRate\<close> on a
  missing client (\<open>null\<close>) throws a \<open>TypeError\<close> before anything is written.
\<close>

definition generateClientInvoice ::
  "ident \<Rightarrow> ident \<Rightarrow> instant \<Rightarrow> instant \<Rightarrow> store \<Rightarrow> (invoice \<times> activity list) outcome" where
  "generateClientInvoice new_id cid pStart pEnd s =
     (let acts = filter (client_selection cid pStart pEnd) (activities s) in
      case client_findUnique cid s of
        None \<Rightarrow> (Inl TypeError, s)
      | Some c \<Rightarrow>
          let rate = or_zero (billingRate c);
              total = foldl (\<lambda>acc a. fadd acc (fmul (durationHours a) rate)) (Num 0) acts;
              invoice = \<lparr>inv_id = new_id, inv_type = CLIENT_BILL, entityId = cid,
                     totalAmount = total, periodStart = pStart, periodEnd = pEnd,
                     inv_status = DRAFT, inv_clientId = Some cid, inv_workerId = None\<rparr>;
              s1 = invoice_create invoice s;
              s2 = activity_updateMany (map act_id acts) (\<lambda>a. a\<lparr>status := INVOICED\<rparr>) s1
          in (Inr (invoice, acts), s2))"

text \<open>\<open>generateWorkerPayout\<close>: the same shape, and no write to the activities.\<close>

definition generateWorkerPayout ::
  "ident \<Rightarrow> ident \<Rightarrow> instant \<Rightarrow> instant \<Rightarrow> store \<Rightarrow> (invoice \<times> activity list \<times> number) outcome" where
  "generateWorkerPayout new_id wid pStart pEnd s =
     (let acts = filter (worker_selection wid pStart pEnd) (activities s) in
      case user_findUnique wid s of
        None \<Rightarrow> (Inl TypeError, s)
      | Some w \<Rightarrow>
          let rate = hourlyRate w;
              hours = foldl (\<lambda>acc a. fadd acc (durationHours a)) (Num 0) acts;
              total = fmul hours rate;
              invoice = \<lparr>inv_id = new_id, inv_type = WORKER_PAYOUT, entityId = wid,
                     totalAmount = total, periodStart = pStart, periodEnd = pEnd,
                     inv_status = DRAFT, inv_clientId = None, inv_workerId = Some wid\<rparr>;
              s1 = invoice_create invoice s
          in (Inr (invoice, acts, hours), s1))"

section \<open>Invoice endpoints (lib/validations.js, controllers/invoices.js)\<close>

text \<open>
  The body after the field parsers of \<open>invoiceSchema\<close> (enum, UUID syntax, date
  coercion): a body they reject is not a value of this type. \<open>validateInvoice\<close> is the
  schema's refinement \<open>end > start\<close>.
\<close>

record invoice_body =
  body_type :: InvoiceType
  body_entityId :: ident
  body_periodStart :: instant
  body_periodEnd :: instant

definition validateInvoice :: "invoice_body \<Rightarrow> failure + invoice_body" where
  "validateInvoice b = (if body_periodEnd b > body_periodStart b then Inr b else Inl ZodError)"

definition generateClientInvoice_controller :: "ident \<Rightarrow> invoice_body \<Rightarrow> store \<Rightarrow> invoice outcome" where
  "generateClientInvoice_controller new_id b s =
     (case validateInvoice b of
        Inl e \<Rightarrow> (Inl e, s)
      | Inr d \<Rightarrow>
          if body_type d \<noteq> CLIENT_BILL then (Inl InvalidInvoiceType, s)
          else (case generateClientInvoice new_id (body_entityId d) (body_periodStart d) (body_periodEnd d) s of
                  (Inl e, s') \<Rightarrow> (Inl e, s')
                | (Inr (invoice, acts), s') \<Rightarrow> (Inr invoice, s')))"

definition generateWorkerPayout_controller :: "ident \<Rightarrow> invoice_body \<Rightarrow> store \<Rightarrow> invoice outcome" where
  "generateWorkerPayout_controller new_id b s =
     (case validateInvoice b of
        Inl e \<Rightarrow> (Inl e, s)
      | Inr d \<Rightarrow>
          if body_type d \<noteq> WORKER_PAYOUT then (Inl InvalidInvoiceType, s)
          else (case generateWorkerPayout new_id (body_entityId d) (body_periodStart d) (body_periodEnd d) s of
                  (Inl e, s') \<Rightarrow> (Inl e, s')
                | (Inr (invoice, acts, hours), s') \<Rightarrow> (Inr invoice, s')))"

section \<open>Contract hour ledger (services/activityService.js, controllers/contracts.js)\<close>

text \<open>\<open>(endDate - startDate) / (1000 * 60 * 60)\<close>: a subtraction and a division of numbers.\<close>

definition calculateDuration :: "instant \<Rightarrow> instant \<Rightarrow> number" where
  "calculateDuration start fin = fdiv (fsub (getTime fin) (getTime start)) (Num (1000 * 60 * 60))"

text \<open>
  The relation \<open>contract.activities\<close> restricted by
  \<open>where: {status: {in: ['VERIFIED', 'INVOICED']}}\<close>, and the \<open>reduce\<close> over it.
\<close>

definition counted :: "ident \<Rightarrow> activity \<Rightarrow> bool" where
  "counted k a = (contractId a = Some k \<and> (status a = VERIFIED \<or> status a = INVOICED))"

definition usedHours :: "ident \<Rightarrow> store \<Rightarrow> number" where
  "usedHours k s =
     foldl (\<lambda>acc a. fadd acc (durationHours a)) (Num 0) (filter (counted k) (activities s))"

definition validateContractHours :: "ident \<Rightarrow> number \<Rightarrow> store \<Rightarrow> failure + unit" where
  "validateContractHours k hours s =
     (case contract_findUnique k s of
        None \<Rightarrow> Inl (NotFoundError ''Contract'')
      | Some c \<Rightarrow>
          let used = usedHours (contract_id c) s;
              remaining = fsub (totalHours c) used
          in if fgt hours remaining then Inl (InsufficientHours remaining) else Inr ())"

text \<open>
  The JSON object a handler answers with: its keys in order, each with its value; a
  number that is not finite is serialised as \<open>null\<close>. \<open>getHoursRemaining\<close> is the
  handler of \<open>controllers/contracts.js\<close>; \<open>getHoursRemaining_ts\<close> is the handler of
  the same route in the TypeScript router.
\<close>

datatype json = JString string | JNumber rat | JNull

fun json_number :: "number \<Rightarrow> json" where
  "json_number (Num a) = JNumber a"
| "json_number x = JNull"

definition getHoursRemaining :: "ident \<Rightarrow> store \<Rightarrow> failure + (string \<times> json) list" where
  "getHoursRemaining k s =
     (case contract_findUnique k s of
        None \<Rightarrow> Inl (NotFoundError ''Contract'')
      | Some c \<Rightarrow>
          let used = usedHours (contract_id c) s;
              remaining = fsub (totalHours c) used
          in Inr [(''contractId'', JString (contract_id c)),
                  (''totalHours'', json_number (totalHours c)),
                  (''usedHours'', json_number used),
                  (''remaining'', json_number remaining)])"

definition getHoursRemaining_ts :: "ident \<Rightarrow> store \<Rightarrow> failure + (string \<times> json) list" where
  "getHoursRemaining_ts k s =
     (case contract_findUnique k s of
        None \<Rightarrow> Inl (NotFoundError ''Contract'')
      | Some c \<Rightarrow>
          let used = usedHours (contract_id c) s;
              remaining = fsub (totalHours c) used
          in Inr [(''contractId'', JString (contract_id c)),
                  (''totalHours'', json_number (totalHours c)),
                  (''usedHours'', json_number used),
                  (''remainingHours'', json_number remaining)])"

section \<open>Activity endpoints (lib/validations.js, controllers/activities.js)\<close>

text \<open>
  The body after the field parsers of \<open>activitySchema\<close> (string, UUID syntax, date
  coercion, \<open>optional().nullable()\<close>); unknown keys such as \<open>status\<close> are stripped by
  the schema. \<open>validateActivity\<close> computes the two \<open>min(1)\<close> checks and the refinement
  \<open>end > start\<close>.
\<close>

record activity_body =
  body_title :: string
  body_contractId :: "ident property"
  body_clientId :: ident
  body_workerId :: "ident property"
  body_scheduledStart :: instant
  body_scheduledEnd :: instant
  body_location :: string
  body_description :: "string property"

definition validateActivity :: "activity_body \<Rightarrow> failure + activity_body" where
  "validateActivity b =
     (if length (body_title b) \<ge> 1 \<and> length (body_location b) \<ge> 1 \<and>
         body_scheduledEnd b > body_scheduledStart b
      then Inr b else Inl ZodError)"

text \<open>\<open>if (data.contractId) await validateContractHours(data.contractId, durationHours)\<close>.\<close>

definition check_contract :: "ident property \<Rightarrow> number \<Rightarrow> store \<Rightarrow> failure + unit" where
  "check_contract k hours s =
     (case k of
        Val v \<Rightarrow> (if v \<noteq> [] then validateContractHours v hours s else Inr ())
      | _ \<Rightarrow> Inr ())"

text \<open>\<open>create\<close>; \<open>new_id\<close> is the identifier the store gives the new activity.\<close>

definition create :: "ident \<Rightarrow> activity_body \<Rightarrow> store \<Rightarrow> activity outcome" where
  "create new_id b s =
     (case validateActivity b of
        Inl e \<Rightarrow> (Inl e, s)
      | Inr d \<Rightarrow>
          let hours = calculateDuration (body_scheduledStart d) (body_scheduledEnd d) in
          case check_contract (body_contractId d) hours s of
            Inl e \<Rightarrow> (Inl e, s)
          | Inr _ \<Rightarrow>
              activity_create
                \<lparr>act_id = new_id, title = body_title d,
                 contractId = write_field (body_contractId d) None,
                 clientId = body_clientId d,
                 workerId = write_field (body_workerId d) None,
                 status = UNASSIGNED,
                 scheduledStart = body_scheduledStart d,
                 scheduledEnd = body_scheduledEnd d,
                 durationHours = hours,
                 location = body_location d,
                 description = write_field (body_description d) None\<rparr> s)"

definition update_data :: "activity_body \<Rightarrow> number \<Rightarrow> activity \<Rightarrow> activity" where
  "update_data d hours a =
     a\<lparr>title := body_title d,
       contractId := write_field (body_contractId d) (contractId a),
       clientId := body_clientId d,
       workerId := write_field (body_workerId d) (workerId a),
       scheduledStart := body_scheduledStart d,
       scheduledEnd := body_scheduledEnd d,
       durationHours := hours,
       location := body_location d,
       description := write_field (body_description d) (description a)\<rparr>"

definition update :: "ident \<Rightarrow> activity_body \<Rightarrow> store \<Rightarrow> activity outcome" where
  "update i b s =
     (case validateActivity b of
        Inl e \<Rightarrow> (Inl e, s)
      | Inr d \<Rightarrow>
          let hours = calculateDuration (body_scheduledStart d) (body_scheduledEnd d) in
          case check_contract (body_contractId d) hours s of
            Inl e \<Rightarrow> (Inl e, s)
          | Inr _ \<Rightarrow> activity_update i (update_data d hours) s)"

text \<open>
  \<open>assignWorker\<close>; \<open>wid\<close> is \<open>req.body.workerId\<close>, read without a schema. The
  \<open>data\<close> object is \<open>{workerId, status: workerId ? 'SCHEDULED' : 'UNASSIGNED'}\<close>.
\<close>

definition assign_data :: "ident property \<Rightarrow> activity \<Rightarrow> activity" where
  "assign_data wid a =
     a\<lparr>workerId := write_field wid (workerId a),
       status := (if truthy wid then SCHEDULED else UNASSIGNED)\<rparr>"

definition assignWorker :: "ident \<Rightarrow> ident property \<Rightarrow> store \<Rightarrow> activity outcome" where
  "assignWorker activityId wid s =
     (case activity_findUnique activityId s of
        None \<Rightarrow> (Inl (NotFoundError ''Activity''), s)
      | Some a \<Rightarrow>
          (case wid of
             Val w \<Rightarrow>
               if w \<noteq> [] then
                 let availability = checkWorkerAvailability w (scheduledStart a) (scheduledEnd a)
                                      (Val activityId) s
                 in if \<not> available availability
                    then (Inl (WorkerConflict (conflictingActivities availability)), s)
                    else activity_update activityId (assign_data wid) s
               else activity_update activityId (assign_data wid) s
           | _ \<Rightarrow> activity_update activityId (assign_data wid) s))"

text \<open>
  \<open>updateStatus\<close>: the requested status is written as it is; \<open>deductContractHours\<close>,
  called afterwards for \<open>VERIFIED\<close>, has an empty body. \<open>updateStatus_ts\<close> is the
  TypeScript router's handler, which answers \<open>P2025\<close> with its own 404.
\<close>

definition updateStatus :: "ident \<Rightarrow> ActivityStatus \<Rightarrow> store \<Rightarrow> activity outcome" where
  "updateStatus i st s = activity_update i (\<lambda>a. a\<lparr>status := st\<rparr>) s"

definition updateStatus_ts :: "ident \<Rightarrow> ActivityStatus \<Rightarrow> store \<Rightarrow> activity outcome" where
  "updateStatus_ts i st s =
     (case activity_update i (\<lambda>a. a\<lparr>status := st\<rparr>) s of
        (Inl e, s') \<Rightarrow>
          (if e = PrismaError ''P2025'' then (Inl (NotFoundError ''Activity''), s')
           else (Inl e, s'))
      | (Inr a, s') \<Rightarrow> (Inr a, s'))"

section \<open>Concrete data for the examples\<close>

text \<open>
  One client \<open>C\<close> billed at 50 per hour, one worker \<open>W\<close> paid 20 per hour, one contract
  \<open>K\<close> of 10 hours. The short identifiers stand for UUIDs. \<open>hour h\<close> is the instant
  \<open>h\<close> hours after the epoch, \<open>minute m\<close> the instant \<open>m\<close> minutes after it.
  \<open>demo_activity\<close> lasts whole hours; \<open>minutes_activity\<close> is given in minutes, with
  the duration the code computes for it.
\<close>

definition hour :: "int \<Rightarrow> instant" where
  "hour h = h * 3600000"

definition minute :: "int \<Rightarrow> instant" where
  "minute m = m * 60000"

definition demo_client :: client where
  "demo_client = \<lparr>client_id = ''C'', client_name = ''Acme'', contactName = ''Ann'',
                   client_email = ''ann@acme.test'', billingRate = Some (Num 50)\<rparr>"

definition demo_worker :: user where
  "demo_worker = \<lparr>user_id = ''W'', user_name = ''Wes'', role = WORKER,
                   user_email = ''wes@gecko.test'', hourlyRate = Num 20, specialty = None\<rparr>"

definition demo_contract :: contract where
  "demo_contract = \<lparr>contract_id = ''K'', contract_clientId = ''C'', orderNumber = ''PO-1'',
                     totalHours = Num 10, startDate = hour 0, endDate = hour 1000,
                     contract_status = ACTIVE\<rparr>"

definition demo_activity :: "ident \<Rightarrow> int \<Rightarrow> int \<Rightarrow> ident option \<Rightarrow> ActivityStatus \<Rightarrow> activity" where
  "demo_activity i h1 h2 w st =
     \<lparr>act_id = i, title = ''Inspection'', contractId = Some ''K'', clientId = ''C'',
      workerId = w, status = st, scheduledStart = hour h1, scheduledEnd = hour h2,
      durationHours = Num (of_int (h2 - h1)), location = ''Site'', description = None\<rparr>"

definition minutes_activity :: "ident \<Rightarrow> int \<Rightarrow> int \<Rightarrow> ident option \<Rightarrow> ActivityStatus \<Rightarrow> activity" where
  "minutes_activity i m1 m2 w st =
     \<lparr>act_id = i, title = ''Inspection'', contractId = Some ''K'', clientId = ''C'',
      workerId = w, status = st, scheduledStart = minute m1, scheduledEnd = minute m2,
      durationHours = calculateDuration (minute m1) (minute m2), location = ''Site'',
      description = None\<rparr>"

definition demo_store :: "activity list \<Rightarrow> store" where
  "demo_store acts = \<lparr>activities = acts, clients = [demo_client], users = [demo_worker],
                       contracts = [demo_contract], invoices = []\<rparr>"

definition demo_body :: "int \<Rightarrow> int \<Rightarrow> ident property \<Rightarrow> activity_body" where
  "demo_body h1 h2 w =
     \<lparr>body_title = ''Inspection'', body_contractId = Val ''K'', body_clientId = ''C'',
      body_workerId = w, body_scheduledStart = hour h1, body_scheduledEnd = hour h2,
      body_location = ''Site'', body_description = Undefined\<rparr>"

definition minutes_body :: "int \<Rightarrow> int \<Rightarrow> ident property \<Rightarrow> activity_body" where
  "minutes_body m1 m2 k =
     \<lparr>body_title = ''Inspection'', body_contractId = k, body_clientId = ''C'',
      body_workerId = Undefined, body_scheduledStart = minute m1, body_scheduledEnd = minute m2,
      body_location = ''Site'', body_description = Undefined\<rparr>"

definition demo_invoice_body :: "InvoiceType \<Rightarrow> ident \<Rightarrow> int \<Rightarrow> int \<Rightarrow> invoice_body" where
  "demo_invoice_body t e h1 h2 =
     \<lparr>body_type = t, body_entityId = e, body_periodStart = hour h1, body_periodEnd = hour h2\<rparr>"

section \<open>Shared lemmas\<close>

lemmas demo_defs = demo_store_def demo_client_def demo_worker_def demo_contract_def
  demo_activity_def demo_body_def demo_invoice_body_def hour_def

subsection \<open>Rounding\<close>

text \<open>
  \<open>ilog2\<close> is the binary exponent, so \<open>round64\<close> on a number of the normal range
  rounds its quotient by the unit in the last place. Two ways to evaluate it follow: at a
  number within half a unit of a 53-bit multiple, and at an exact tie.
\<close>

lemma pow2_powi: "pow2 e = 2 powi e"
  by (simp add: pow2_def power_int_def inverse_eq_divide power_one_over)

lemma pow2_pos: "0 < pow2 e"
  by (simp add: pow2_powi)

lemma pow2_mono: "a \<le> b \<Longrightarrow> pow2 a \<le> pow2 b"
  by (simp add: pow2_powi power_int_increasing)

lemma pow2_strict_mono: "a < b \<Longrightarrow> pow2 a < pow2 b"
  by (simp add: pow2_powi power_int_strict_increasing)

lemma pow2_less_iff: "pow2 a < pow2 b \<longleftrightarrow> a < b"
proof
  assume l: "pow2 a < pow2 b"
  show "a < b"
  proof (rule ccontr)
    assume "\<not> a < b"
    then have "pow2 b \<le> pow2 a" by (simp add: pow2_mono)
    with l show False by simp
  qed
qed (rule pow2_strict_mono)

lemma ilog2_bounds:
  assumes "x \<noteq> 0"
  shows "pow2 (ilog2 x) \<le> \<bar>x\<bar> \<and> \<bar>x\<bar> < pow2 (ilog2 x + 1)"
proof -
  obtain a b where q: "quotient_of \<bar>x\<bar> = (a, b)" by (cases "quotient_of \<bar>x\<bar>")
  then have b: "0 < b" and x: "\<bar>x\<bar> = of_int a / of_int b"
    by (simp_all add: quotient_of_denom_pos quotient_of_div)
  from assms have "0 < \<bar>x\<bar>" by simp
  with x b have a: "0 < a" by (simp add: zero_less_divide_iff)
  define la where "la = bitlen a"
  define lb where "lb = bitlen b"
  from bitlen_bounds[OF a] have a1: "2 ^ nat (la - 1) \<le> a" and a2: "a < 2 ^ nat la"
    by (simp_all add: la_def)
  from bitlen_bounds[OF b] have b1: "2 ^ nat (lb - 1) \<le> b" and b2: "b < 2 ^ nat lb"
    by (simp_all add: lb_def)
  have la: "1 \<le> la" using a by (simp add: la_def bitlen_alt_def)
  have lb: "1 \<le> lb" using b by (simp add: lb_def bitlen_alt_def)
  have ra1: "2 powi (la - 1) \<le> rat_of_int a"
  proof -
    have "rat_of_int (2 ^ nat (la - 1)) \<le> rat_of_int a" using a1 by (simp only: of_int_le_iff)
    then show ?thesis using la by (simp add: power_int_def)
  qed
  have ra2: "rat_of_int a < 2 powi la"
  proof -
    have "rat_of_int a < rat_of_int (2 ^ nat la)" using a2 by (simp only: of_int_less_iff)
    then show ?thesis using la by (simp add: power_int_def)
  qed
  have rb1: "2 powi (lb - 1) \<le> rat_of_int b"
  proof -
    have "rat_of_int (2 ^ nat (lb - 1)) \<le> rat_of_int b" using b1 by (simp only: of_int_le_iff)
    then show ?thesis using lb by (simp add: power_int_def)
  qed
  have rb2: "rat_of_int b < 2 powi lb"
  proof -
    have "rat_of_int b < rat_of_int (2 ^ nat lb)" using b2 by (simp only: of_int_less_iff)
    then show ?thesis using lb by (simp add: power_int_def)
  qed
  have rb: "0 < rat_of_int b" using b by simp
  have upper: "\<bar>x\<bar> < pow2 (la - lb + 1)"
  proof -
    have "rat_of_int a / rat_of_int b < 2 powi la / rat_of_int b"
      using ra2 rb by (simp add: divide_strict_right_mono)
    also have "\<dots> \<le> 2 powi la / 2 powi (lb - 1)"
      using rb1 rb by (intro divide_left_mono) (simp_all add: zero_less_mult_iff)
    also have "\<dots> = 2 powi (la - (lb - 1))"
      by (simp add: power_int_diff)
    finally show ?thesis by (simp add: x pow2_powi algebra_simps)
  qed
  have lower: "pow2 (la - lb - 1) \<le> \<bar>x\<bar>"
  proof -
    have "2 powi (la - 1 - lb) = 2 powi (la - 1) / (2 powi lb :: rat)"
      by (simp add: power_int_diff)
    also have "\<dots> \<le> rat_of_int a / 2 powi lb"
      using ra1 by (simp add: divide_right_mono)
    also have "\<dots> \<le> rat_of_int a / rat_of_int b"
      using rb2 a rb by (intro divide_left_mono) (simp_all add: zero_less_mult_iff)
    finally show ?thesis by (simp add: x pow2_powi algebra_simps)
  qed
  show ?thesis
  proof (cases "pow2 (la - lb) \<le> \<bar>x\<bar>")
    case True
    then have "ilog2 x = la - lb" by (simp add: ilog2_def q Let_def la_def lb_def)
    with True upper show ?thesis by simp
  next
    case False
    then have "ilog2 x = la - lb - 1" by (simp add: ilog2_def q Let_def la_def lb_def)
    with False lower show ?thesis by simp
  qed
qed

lemma ilog2_unique:
  assumes "pow2 e \<le> \<bar>x\<bar>" "\<bar>x\<bar> < pow2 (e + 1)"
  shows "ilog2 x = e"
proof -
  from assms(1) pow2_pos[of e] have "x \<noteq> 0" by auto
  from ilog2_bounds[OF this] have l: "pow2 (ilog2 x) \<le> \<bar>x\<bar>" and u: "\<bar>x\<bar> < pow2 (ilog2 x + 1)"
    by simp_all
  from assms(1) u have "pow2 e < pow2 (ilog2 x + 1)" by simp
  then have "e < ilog2 x + 1" by (simp add: pow2_less_iff)
  moreover from l assms(2) have "pow2 (ilog2 x) < pow2 (e + 1)" by simp
  then have "ilog2 x < e + 1" by (simp add: pow2_less_iff)
  ultimately show ?thesis by simp
qed

lemma round_half_even_near:
  assumes "\<bar>r - of_int m\<bar> < 1 / 2"
  shows "round_half_even r = m"
proof -
  define f where "f = \<lfloor>r\<rfloor>"
  have f1: "of_int f \<le> r" and f2: "r < of_int f + 1"
    using floor_correct[of r] by (simp_all add: f_def)
  from assms have m1: "r - 1 / 2 < of_int m" and m2: "of_int m < r + 1 / 2" by linarith+
  have low: "f \<le> m"
  proof -
    from f1 m1 have "rat_of_int f - 1 < of_int m" by linarith
    then have "rat_of_int (f - 1) < of_int m" by simp
    then have "f - 1 < m" by (simp only: of_int_less_iff)
    then show ?thesis by simp
  qed
  have high: "m \<le> f + 1"
  proof -
    from f2 m2 have "rat_of_int m < of_int f + 2" by linarith
    then have "rat_of_int m < of_int (f + 2)" by simp
    then have "m < f + 2" by (simp only: of_int_less_iff)
    then show ?thesis by simp
  qed
  from low high consider "m = f" | "m = f + 1" by linarith
  then show ?thesis
  proof cases
    case 1
    from m1 have "r - of_int f < 1 / 2" unfolding 1 by linarith
    with 1 show ?thesis by (simp add: round_half_even_def Let_def f_def)
  next
    case 2
    have "rat_of_int (f + 1) = of_int f + 1" by simp
    with m2[unfolded 2] have gt: "r - of_int f > 1 / 2" by linarith
    then have "\<not> r - of_int f < 1 / 2" by linarith
    with gt 2 show ?thesis by (simp add: round_half_even_def Let_def f_def)
  qed
qed

lemma round_half_even_tie:
  assumes "r = of_int f + 1 / 2"
  shows "round_half_even r = (if even f then f else f + 1)"
proof -
  have "\<lfloor>r\<rfloor> = f" unfolding assms by (rule floor_unique) simp_all
  then show ?thesis by (simp add: round_half_even_def Let_def assms)
qed

lemma round_half_even_dist: "\<bar>of_int (round_half_even r) - r\<bar> \<le> 1 / 2"
proof -
  define f where "f = \<lfloor>r\<rfloor>"
  have f1: "of_int f \<le> r" and f2: "r < of_int f + 1"
    using floor_correct[of r] by (simp_all add: f_def)
  consider "r - of_int f < 1 / 2" | "r - of_int f > 1 / 2" | "r - of_int f = 1 / 2" by linarith
  then show ?thesis
  proof cases
    case 1
    then have "round_half_even r = f" by (simp add: round_half_even_def Let_def f_def)
    with 1 f1 show ?thesis by simp
  next
    case 2
    then have "\<not> r - of_int f < 1 / 2" by linarith
    with 2 have "round_half_even r = f + 1" by (simp add: round_half_even_def Let_def f_def)
    with 2 f2 show ?thesis by simp
  next
    case 3
    then have "round_half_even r = f \<or> round_half_even r = f + 1"
      by (simp add: round_half_even_def Let_def f_def)
    with 3 show ?thesis by auto
  qed
qed

lemma round64_normal:
  assumes "pow2 e \<le> \<bar>x\<bar>" "\<bar>x\<bar> < pow2 (e + 1)" "- 1022 \<le> e" "e \<le> 1022"
  shows "round64 x = Num (of_int (round_half_even (x / pow2 (e - 52))) * pow2 (e - 52))"
proof -
  define m where "m = round_half_even (x / pow2 (e - 52))"
  from assms(1) pow2_pos[of e] have nz: "x \<noteq> 0" by auto
  have e: "max (ilog2 x) (- 1022) = e"
    using ilog2_unique[OF assms(1,2)] assms(3) by simp
  have ulp: "0 < pow2 (e - 52)" by (rule pow2_pos)
  have "\<bar>of_int m\<bar> \<le> \<bar>x / pow2 (e - 52)\<bar> + 1 / 2"
    using round_half_even_dist[of "x / pow2 (e - 52)"] unfolding m_def by linarith
  also have "\<bar>x / pow2 (e - 52)\<bar> = \<bar>x\<bar> / pow2 (e - 52)"
    using ulp by (simp add: abs_divide)
  finally have "\<bar>of_int m\<bar> * pow2 (e - 52) \<le> \<bar>x\<bar> + pow2 (e - 52) / 2"
    using ulp by (simp add: field_simps)
  also have "\<dots> < pow2 (e + 1) + pow2 (e - 52) / 2" using assms(2) by simp
  also have "\<dots> \<le> pow2 (e + 1) + pow2 (e + 1)"
  proof -
    have "pow2 (e - 52) \<le> pow2 (e + 1)"
      by (rule pow2_mono) simp
    with ulp show ?thesis by linarith
  qed
  also have "\<dots> = pow2 (e + 2)" by (simp add: pow2_powi power_int_add)
  also have "\<dots> \<le> pow2 1024"
    using assms(4) by (intro pow2_mono) simp
  finally have small: "\<not> pow2 1024 \<le> \<bar>of_int m * pow2 (e - 52)\<bar>"
    using ulp by (simp add: abs_mult)
  show ?thesis
    using nz small by (simp add: round64_def Let_def e m_def)
qed

lemma round64_near:
  assumes "pow2 e \<le> \<bar>x\<bar>" "\<bar>x\<bar> < pow2 (e + 1)" "- 1022 \<le> e" "e \<le> 1022"
    and "\<bar>x / pow2 (e - 52) - of_int m\<bar> < 1 / 2"
  shows "round64 x = Num (of_int m * pow2 (e - 52))"
  by (simp add: round64_normal[OF assms(1-4)] round_half_even_near[OF assms(5)])

lemma round64_tie:
  assumes "pow2 e \<le> \<bar>x\<bar>" "\<bar>x\<bar> < pow2 (e + 1)" "- 1022 \<le> e" "e \<le> 1022"
    and "x / pow2 (e - 52) = of_int f + 1 / 2"
  shows "round64 x = Num (of_int (if even f then f else f + 1) * pow2 (e - 52))"
  by (simp only: round64_normal[OF assms(1-4)] round_half_even_tie[OF assms(5)])

text \<open>Integers below \<open>2^53\<close> are binary64 values: rounding leaves them as they are.\<close>

lemma round_half_even_of_int: "round_half_even (of_int m) = m"
  by (simp add: round_half_even_def)

lemma ilog2_of_int_le:
  assumes "n \<noteq> 0" "\<bar>n\<bar> < 2 ^ 53"
  shows "ilog2 (of_int n) \<le> 52"
proof -
  have q: "quotient_of \<bar>rat_of_int n\<bar> = (\<bar>n\<bar>, 1)"
    by (metis of_int_abs quotient_of_rat_of_int)
  have "0 < \<bar>n\<bar>" using assms by simp
  with assms have "bitlen \<bar>n\<bar> \<le> 53"
    by (simp add: bitlen_le_iff_power)
  moreover have "bitlen 1 = 1" by (simp add: bitlen_alt_def)
  ultimately show ?thesis
    by (simp add: ilog2_def q Let_def)
qed

lemma round64_of_int:
  assumes "\<bar>n\<bar> < 2 ^ 53"
  shows "round64 (of_int n) = Num (of_int n)"
proof (cases "n = 0")
  case True
  then show ?thesis by (simp add: round64_def)
next
  case False
  define e where "e = max (ilog2 (rat_of_int n)) (- 1022)"
  define k where "k = nat (52 - e)"
  from ilog2_of_int_le[OF False assms] have e: "e \<le> 52" by (simp add: e_def)
  have ulp: "pow2 (e - 52) = 1 / 2 ^ k"
  proof (cases "e = 52")
    case True
    then show ?thesis by (simp add: pow2_def k_def)
  next
    case False
    with e have "e - 52 < 0" by simp
    then show ?thesis by (simp add: pow2_def k_def)
  qed
  have scaled: "rat_of_int n / pow2 (e - 52) = of_int (n * 2 ^ k)"
    by (simp add: ulp)
  have y: "of_int (round_half_even (rat_of_int n / pow2 (e - 52))) * pow2 (e - 52) = rat_of_int n"
    unfolding scaled round_half_even_of_int by (simp add: ulp)
  have "\<bar>rat_of_int n\<bar> < 2 ^ 53"
    using assms by (metis of_int_abs of_int_less_numeral_power_cancel_iff)
  also have "\<dots> \<le> (2::rat) ^ 1024" by (rule power_increasing) simp_all
  finally have small: "\<not> \<bar>rat_of_int n\<bar> \<ge> pow2 1024" by (simp add: pow2_def)
  from False show ?thesis
    unfolding round64_def Let_def e_def[symmetric] y using small by simp
qed

lemma round64_exact:
  assumes "x \<in> \<int>" "\<bar>x\<bar> < 9007199254740992"
  shows "round64 x = Num x"
proof -
  from assms(1) obtain n where x: "x = of_int n" by (auto elim: Ints_cases)
  with assms(2) have "\<bar>rat_of_int n\<bar> < 2 ^ 53" by simp
  then have "\<bar>n\<bar> < 2 ^ 53" by (metis of_int_abs of_int_less_numeral_power_cancel_iff)
  from round64_of_int[OF this] x show ?thesis by simp
qed

text \<open>
  Dates lie within 8.64e15 milliseconds of the epoch, so they are numbers as they are; when
  their difference is below \<open>2^53\<close> too, \<open>calculateDuration\<close> is the exact number of hours
  rounded once.
\<close>

lemma calculateDuration_rounded:
  assumes "\<bar>start\<bar> \<le> 8640000000000000" "\<bar>fin\<bar> \<le> 8640000000000000"
    and "\<bar>fin - start\<bar> < 9007199254740992"
  shows "calculateDuration start fin = round64 (of_int (fin - start) / 3600000)"
proof -
  have s: "getTime start = Num (of_int start)" and f: "getTime fin = Num (of_int fin)"
    using assms(1,2) unfolding getTime_def by (intro round64_exact; simp)+
  have "\<bar>rat_of_int (fin - start)\<bar> < 9007199254740992"
    using assms(3) by (metis of_int_abs of_int_less_numeral_iff)
  then have d: "round64 (rat_of_int fin - rat_of_int start) = Num (of_int (fin - start))"
    using round64_exact[of "rat_of_int (fin - start)"] by simp
  show ?thesis
    by (simp add: calculateDuration_def s f fsub_def d)
qed

lemma calculateDuration_hours:
  assumes "\<bar>a\<bar> \<le> 1000000000" "\<bar>b\<bar> \<le> 1000000000"
  shows "calculateDuration (hour a) (hour b) = Num (of_int (b - a))"
proof -
  have "calculateDuration (hour a) (hour b) = round64 (of_int (hour b - hour a) / 3600000)"
    using assms unfolding hour_def by (intro calculateDuration_rounded) linarith+
  also have "rat_of_int (hour b - hour a) / 3600000 = of_int (b - a)"
    by (simp add: hour_def)
  also have "round64 (rat_of_int (b - a)) = Num (of_int (b - a))"
    using assms by (intro round64_of_int) simp
  finally show ?thesis .
qed

subsection \<open>Sums\<close>

lemma sum_doubles_map:
  "sum_doubles (map f xs) = foldl (\<lambda>acc a. fadd acc (f a)) (Num 0) xs"
  by (simp add: sum_doubles_def foldl_map)

lemma or_zero_eq:
  "or_zero r = (case r of None \<Rightarrow> Num 0 | Some v \<Rightarrow> if v = NaN then Num 0 else v)"
  by (auto simp: or_zero_def split: option.splits)

subsection \<open>The arithmetic at the examples that are not whole hours\<close>

text \<open>
  Ten minutes are 0.16666666666666666 hours, and at a rate of 50 they cost
  8.333333333333332. Six and twelve minutes are 0.1 and 0.2 hours, which sum to
  0.30000000000000004, paid 6.000000000000001 at a rate of 20. Of ten hours, 74 minutes
  (1.2333333333333334) leave 8.766666666666666, less than the 8.766666666666667 hours that
  526 minutes are.
\<close>

lemma ten_minutes:
  "calculateDuration 0 600000 = Num (6004799503160661 / 36028797018963968)"
  using round64_near[of "-3" "(1 / 6)" "6004799503160661"]
  by (simp add: pow2_def calculateDuration_def getTime_def fsub_def round64_exact)

lemma ten_minutes_at_50:
  "round64 (150119987579016525 / 18014398509481984) = Num (2345624805922133 / 281474976710656)"
  using round64_near[of "3" "(150119987579016525 / 18014398509481984)" "4691249611844266"]
  by (simp add: pow2_def)

lemma sum_ten_minutes_at_50:
  "round64 (2345624805922133 / 281474976710656) = Num (2345624805922133 / 281474976710656)"
  using round64_near[of "3" "(2345624805922133 / 281474976710656)" "4691249611844266"]
  by (simp add: pow2_def)

lemma six_minutes:
  "calculateDuration 0 360000 = Num (3602879701896397 / 36028797018963968)"
  using round64_near[of "-4" "(1 / 10)" "7205759403792794"]
  by (simp add: pow2_def calculateDuration_def getTime_def fsub_def round64_exact)

lemma twelve_minutes:
  "calculateDuration 3600000 4320000 = Num (3602879701896397 / 18014398509481984)"
  using round64_near[of "-3" "(1 / 5)" "7205759403792794"]
  by (simp add: pow2_def calculateDuration_def getTime_def fsub_def round64_exact)

lemma sum_six_minutes:
  "round64 (3602879701896397 / 36028797018963968) = Num (3602879701896397 / 36028797018963968)"
  using round64_near[of "-4" "(3602879701896397 / 36028797018963968)" "7205759403792794"]
  by (simp add: pow2_def)

lemma sum_six_and_twelve_minutes:
  "round64 (10808639105689191 / 36028797018963968) = Num (1351079888211149 / 4503599627370496)"
  using round64_tie[of "-2" "(10808639105689191 / 36028797018963968)" "5404319552844595"]
  by (simp add: pow2_def)

lemma eighteen_minutes_at_20:
  "round64 (6755399441055745 / 1125899906842624) = Num (6755399441055745 / 1125899906842624)"
  using round64_near[of "2" "(6755399441055745 / 1125899906842624)" "6755399441055745"]
  by (simp add: pow2_def)

lemma seventy_four_minutes:
  "calculateDuration 0 4440000 = Num (1388609885105903 / 1125899906842624)"
  using round64_near[of "0" "(37 / 30)" "5554439540423612"]
  by (simp add: pow2_def calculateDuration_def getTime_def fsub_def round64_exact)

lemma five_hundred_twenty_six_minutes:
  "calculateDuration 0 31560000 = Num (4935194591660169 / 562949953421312)"
  using round64_near[of "3" "(263 / 30)" "4935194591660169"]
  by (simp add: pow2_def calculateDuration_def getTime_def fsub_def round64_exact)

lemma sum_seventy_four_minutes:
  "round64 (1388609885105903 / 1125899906842624) = Num (1388609885105903 / 1125899906842624)"
  using round64_near[of "0" "(1388609885105903 / 1125899906842624)" "5554439540423612"]
  by (simp add: pow2_def)

lemma ten_hours_less_seventy_four_minutes:
  "round64 (9870389183320337 / 1125899906842624) = Num (616899323957521 / 70368744177664)"
  using round64_tie[of "3" "(9870389183320337 / 1125899906842624)" "4935194591660168"]
  by (simp add: pow2_def)

lemmas known_answers = ten_minutes ten_minutes_at_50 sum_ten_minutes_at_50 six_minutes
  twelve_minutes sum_six_minutes sum_six_and_twelve_minutes eighteen_minutes_at_20
  seventy_four_minutes five_hundred_twenty_six_minutes sum_seventy_four_minutes
  ten_hours_less_seventy_four_minutes

lemma client_selection_filter:
  "filter (client_selection cid p q) xs =
   filter (\<lambda>a. clientId a = cid \<and> status a = VERIFIED \<and>
               p \<le> scheduledStart a \<and> scheduledEnd a \<le> q) xs"
  by (rule filter_cong) (simp_all add: client_selection_def)

lemma worker_selection_filter:
  "filter (worker_selection wid p q) xs =
   filter (\<lambda>a. workerId a = Some wid \<and> status a = VERIFIED \<and>
               p \<le> scheduledStart a \<and> scheduledEnd a \<le> q) xs"
  by (rule filter_cong) (simp_all add: worker_selection_def)

section \<open>Client invoice generation\<close>

lemma generateClientInvoice_result:
  assumes "client_findUnique cid s = Some c"
  shows "generateClientInvoice n cid p q s =
    (Inr (\<lparr>inv_id = n, inv_type = CLIENT_BILL, entityId = cid,
           totalAmount = sum_doubles (map (\<lambda>a. fmul (durationHours a) (or_zero (billingRate c)))
                                        (filter (client_selection cid p q) (activities s))),
           periodStart = p, periodEnd = q, inv_status = DRAFT,
           inv_clientId = Some cid, inv_workerId = None\<rparr>,
          filter (client_selection cid p q) (activities s)),
     s\<lparr>activities := map (\<lambda>x. if act_id x \<in> act_id ` set (filter (client_selection cid p q) (activities s))
                              then x\<lparr>status := INVOICED\<rparr> else x) (activities s),
       invoices := invoices s @ [\<lparr>inv_id = n, inv_type = CLIENT_BILL, entityId = cid,
           totalAmount = sum_doubles (map (\<lambda>a. fmul (durationHours a) (or_zero (billingRate c)))
                                        (filter (client_selection cid p q) (activities s))),
           periodStart = p, periodEnd = q, inv_status = DRAFT,
           inv_clientId = Some cid, inv_workerId = None\<rparr>]\<rparr>)"
  using assms
  by (simp add: generateClientInvoice_def Let_def sum_doubles_map invoice_create_def
      activity_updateMany_def)

lemma generateClientInvoice_missing:
  "client_findUnique cid s = None \<Longrightarrow> generateClientInvoice n cid p q s = (Inl TypeError, s)"
  by (simp add: generateClientInvoice_def)

lemma generateClientInvoice_Inr_client:
  assumes "generateClientInvoice n cid p q s = (Inr r, s')"
  shows "\<exists>c. client_findUnique cid s = Some c"
proof (cases "client_findUnique cid s")
  case None
  with assms show ?thesis by (simp add: generateClientInvoice_missing)
next
  case (Some c)
  then show ?thesis by blast
qed

text \<open>
  C2. For an existing client, \<open>generateClientInvoice\<close> succeeds whatever the period;
  it selects exactly the activities of the client that are \<open>VERIFIED\<close> and lie wholly
  inside the period (start at or after \<open>periodStart\<close>, end at or before \<open>periodEnd\<close>);
  the invoice it creates is a \<open>DRAFT\<close> client bill whose \<open>totalAmount\<close> is the sum, in
  the code's numbers (each product and each addition a binary64 operation, accumulated
  from 0 in the order of the selection), of \<open>durationHours\<close> times the client's
  \<open>billingRate\<close>, the rate being 0 when it is unset; and in the store it leaves, every
  row whose id was selected has status \<open>INVOICED\<close>, so each selected activity is there
  as \<open>INVOICED\<close>.
\<close>

theorem generateClientInvoice_spec:
  assumes "client_findUnique cid s = Some c"
  shows "\<exists>invoice acts s'.
     generateClientInvoice n cid p q s = (Inr (invoice, acts), s') \<and>
     acts = filter (\<lambda>a. clientId a = cid \<and> status a = VERIFIED \<and>
                         p \<le> scheduledStart a \<and> scheduledEnd a \<le> q) (activities s) \<and>
     inv_type invoice = CLIENT_BILL \<and> entityId invoice = cid \<and> inv_status invoice = DRAFT \<and>
     periodStart invoice = p \<and> periodEnd invoice = q \<and>
     totalAmount invoice =
       sum_doubles (map (\<lambda>a. fmul (durationHours a)
                                (case billingRate c of None \<Rightarrow> Num 0
                                 | Some r \<Rightarrow> if r = NaN then Num 0 else r)) acts) \<and>
     invoices s' = invoices s @ [invoice] \<and>
     activities s' = map (\<lambda>x. if act_id x \<in> act_id ` set acts then x\<lparr>status := INVOICED\<rparr> else x)
                         (activities s) \<and>
     (\<forall>a \<in> set acts. a\<lparr>status := INVOICED\<rparr> \<in> set (activities s'))"
proof -
  let ?acts = "filter (client_selection cid p q) (activities s)"
  have member: "a\<lparr>status := INVOICED\<rparr> \<in>
      set (map (\<lambda>x. if act_id x \<in> act_id ` set ?acts then x\<lparr>status := INVOICED\<rparr> else x)
             (activities s))"
    if "a \<in> set ?acts" for a
  proof -
    from that have "a \<in> set (activities s)" and "act_id a \<in> act_id ` set ?acts" by auto
    then show ?thesis by (auto simp: image_iff intro!: bexI[of _ a])
  qed
  show ?thesis
    using member unfolding client_selection_filter[symmetric]
    by (simp add: generateClientInvoice_result[OF assms] or_zero_eq)
qed

text \<open>
  The example of the specification: one \<open>VERIFIED\<close> activity of 4 hours at a billing
  rate of 50 gives an invoice of 200, and the activity becomes \<open>INVOICED\<close>. An activity
  of ten minutes at the same rate is billed 8.333333333333332.
\<close>

theorem generateClientInvoice_spec_witness:
  "client_findUnique ''C'' (demo_store [demo_activity ''A'' 10 14 (Some ''W'') VERIFIED])
     = Some demo_client \<and>
   (\<exists>invoice acts s'.
      generateClientInvoice ''I'' ''C'' (hour 0) (hour 24)
        (demo_store [demo_activity ''A'' 10 14 (Some ''W'') VERIFIED]) = (Inr (invoice, acts), s') \<and>
      acts = [demo_activity ''A'' 10 14 (Some ''W'') VERIFIED] \<and>
      totalAmount invoice = Num 200 \<and> inv_status invoice = DRAFT \<and>
      activities s' = [demo_activity ''A'' 10 14 (Some ''W'') INVOICED]) \<and>
   (\<exists>invoice acts s'.
      generateClientInvoice ''I'' ''C'' (hour 0) (hour 24)
        (demo_store [minutes_activity ''B'' 0 10 (Some ''W'') VERIFIED]) = (Inr (invoice, acts), s') \<and>
      acts = [minutes_activity ''B'' 0 10 (Some ''W'') VERIFIED] \<and>
      totalAmount invoice = Num (2345624805922133 / 281474976710656) \<and>
      activities s' = [minutes_activity ''B'' 0 10 (Some ''W'') INVOICED])"
proof -
  have c: "client_findUnique ''C'' (demo_store acts) = Some demo_client" for acts
    by (simp add: client_findUnique_def demo_defs)
  have rate: "billingRate demo_client = Some (Num 50)"
    by (simp add: demo_defs)
  have whole: "\<exists>invoice acts s'.
      generateClientInvoice ''I'' ''C'' (hour 0) (hour 24)
        (demo_store [demo_activity ''A'' 10 14 (Some ''W'') VERIFIED]) = (Inr (invoice, acts), s') \<and>
      acts = [demo_activity ''A'' 10 14 (Some ''W'') VERIFIED] \<and>
      totalAmount invoice = Num 200 \<and> inv_status invoice = DRAFT \<and>
      activities s' = [demo_activity ''A'' 10 14 (Some ''W'') INVOICED]"
    using generateClientInvoice_spec[OF c, of "''I''" "hour 0" "hour 24"
        "[demo_activity ''A'' 10 14 (Some ''W'') VERIFIED]"]
    by (auto simp: demo_defs sum_doubles_def round64_exact)
  have minutes: "\<exists>invoice acts s'.
      generateClientInvoice ''I'' ''C'' (hour 0) (hour 24)
        (demo_store [minutes_activity ''B'' 0 10 (Some ''W'') VERIFIED]) = (Inr (invoice, acts), s') \<and>
      acts = [minutes_activity ''B'' 0 10 (Some ''W'') VERIFIED] \<and>
      totalAmount invoice = Num (2345624805922133 / 281474976710656) \<and>
      activities s' = [minutes_activity ''B'' 0 10 (Some ''W'') INVOICED]"
    using generateClientInvoice_spec[OF c, of "''I''" "hour 0" "hour 24"
        "[minutes_activity ''B'' 0 10 (Some ''W'') VERIFIED]"]
    by (auto simp: demo_defs minutes_activity_def minute_def sum_doubles_def known_answers)
  from c whole minutes show ?thesis by blast
qed

section \<open>At-most-once client billing\<close>

text \<open>
  C1, as the code has it. After a successful \<open>generateClientInvoice\<close>, every row whose
  id the run selected has status \<open>INVOICED\<close>. A second run for the same client, over any
  period at all, succeeds and selects none of the activities the first run billed. When
  the second period is the same as the first, or lies inside it, the second run selects
  nothing and its invoice has \<open>totalAmount = 0\<close>.
\<close>

theorem generateClientInvoice_at_most_once:
  assumes run1: "generateClientInvoice n1 cid p1 q1 s = (Inr (inv1, acts1), s1)"
  shows "(\<forall>a \<in> set (activities s1). act_id a \<in> act_id ` set acts1 \<longrightarrow> status a = INVOICED) \<and>
     (\<exists>inv2 acts2 s2.
        generateClientInvoice n2 cid p2 q2 s1 = (Inr (inv2, acts2), s2) \<and>
        act_id ` set acts2 \<inter> act_id ` set acts1 = {} \<and>
        (p1 \<le> p2 \<and> q2 \<le> q1 \<longrightarrow> acts2 = [] \<and> totalAmount inv2 = Num 0))"
proof -
  from generateClientInvoice_Inr_client[OF run1] obtain c
    where c: "client_findUnique cid s = Some c" by blast
  let ?sel1 = "filter (client_selection cid p1 q1) (activities s)"
  let ?f = "\<lambda>x. if act_id x \<in> act_id ` set ?sel1 then x\<lparr>status := INVOICED\<rparr> else x"
  from run1 have acts1: "acts1 = ?sel1" and s1: "activities s1 = map ?f (activities s)"
    and cl: "clients s1 = clients s"
    unfolding generateClientInvoice_result[OF c] by auto
  have c1: "client_findUnique cid s1 = Some c"
    using c cl by (simp add: client_findUnique_def)
  have flipped: "status a = INVOICED" if "a \<in> set (activities s1)" "act_id a \<in> act_id ` set acts1" for a
    using that unfolding s1 acts1 by (auto split: if_splits)
  let ?sel2 = "filter (client_selection cid p2 q2) (activities s1)"
  have unchanged: "a \<in> set (activities s) \<and> act_id a \<notin> act_id ` set acts1" if "a \<in> set ?sel2" for a
  proof -
    from that have a1: "a \<in> set (activities s1)" and v: "status a = VERIFIED"
      by (auto simp: client_selection_def)
    from a1 obtain x where x: "x \<in> set (activities s)" and ax: "a = ?f x"
      unfolding s1 by auto
    show ?thesis
    proof (cases "act_id x \<in> act_id ` set ?sel1")
      case True
      with ax v show ?thesis by simp
    next
      case False
      with ax x show ?thesis by (simp add: acts1)
    qed
  qed
  have disj: "act_id ` set ?sel2 \<inter> act_id ` set acts1 = {}"
    using unchanged by blast
  have empty: "?sel2 = []" if "p1 \<le> p2" "q2 \<le> q1"
  proof (rule ccontr)
    assume "?sel2 \<noteq> []"
    then obtain a where a: "a \<in> set ?sel2" by (cases ?sel2) auto
    from unchanged[OF a] have as: "a \<in> set (activities s)" and nid: "act_id a \<notin> act_id ` set acts1"
      by simp_all
    from a that have "client_selection cid p1 q1 a"
      by (auto simp: client_selection_def)
    with as have "a \<in> set acts1" by (simp add: acts1)
    with nid show False by blast
  qed
  show ?thesis
    using flipped disj empty
    by (simp add: generateClientInvoice_result[OF c1] sum_doubles_def)
qed

text \<open>The example of the specification: the second run over the same period bills 0.\<close>

theorem generateClientInvoice_at_most_once_witness:
  "generateClientInvoice ''I1'' ''C'' (hour 0) (hour 24)
      (demo_store [demo_activity ''A'' 10 14 (Some ''W'') VERIFIED])
    = (Inr (\<lparr>inv_id = ''I1'', inv_type = CLIENT_BILL, entityId = ''C'', totalAmount = Num 200,
             periodStart = hour 0, periodEnd = hour 24, inv_status = DRAFT,
             inv_clientId = Some ''C'', inv_workerId = None\<rparr>,
            [demo_activity ''A'' 10 14 (Some ''W'') VERIFIED]),
       (demo_store [demo_activity ''A'' 10 14 (Some ''W'') INVOICED])
         \<lparr>invoices := [\<lparr>inv_id = ''I1'', inv_type = CLIENT_BILL, entityId = ''C'',
             totalAmount = Num 200, periodStart = hour 0, periodEnd = hour 24, inv_status = DRAFT,
             inv_clientId = Some ''C'', inv_workerId = None\<rparr>]\<rparr>) \<and>
   (\<exists>inv2 s2.
      generateClientInvoice ''I2'' ''C'' (hour 0) (hour 24)
         ((demo_store [demo_activity ''A'' 10 14 (Some ''W'') INVOICED])
         \<lparr>invoices := [\<lparr>inv_id = ''I1'', inv_type = CLIENT_BILL, entityId = ''C'',
             totalAmount = Num 200, periodStart = hour 0, periodEnd = hour 24, inv_status = DRAFT,
             inv_clientId = Some ''C'', inv_workerId = None\<rparr>]\<rparr>)
       = (Inr (inv2, []), s2) \<and> totalAmount inv2 = Num 0)"
proof -
  have run1: "generateClientInvoice ''I1'' ''C'' (hour 0) (hour 24)
      (demo_store [demo_activity ''A'' 10 14 (Some ''W'') VERIFIED])
    = (Inr (\<lparr>inv_id = ''I1'', inv_type = CLIENT_BILL, entityId = ''C'', totalAmount = Num 200,
             periodStart = hour 0, periodEnd = hour 24, inv_status = DRAFT,
             inv_clientId = Some ''C'', inv_workerId = None\<rparr>,
            [demo_activity ''A'' 10 14 (Some ''W'') VERIFIED]),
       (demo_store [demo_activity ''A'' 10 14 (Some ''W'') INVOICED])
         \<lparr>invoices := [\<lparr>inv_id = ''I1'', inv_type = CLIENT_BILL, entityId = ''C'',
             totalAmount = Num 200, periodStart = hour 0, periodEnd = hour 24, inv_status = DRAFT,
             inv_clientId = Some ''C'', inv_workerId = None\<rparr>]\<rparr>)"
    by (simp add: generateClientInvoice_def client_findUnique_def client_selection_def
        invoice_create_def activity_updateMany_def or_zero_def demo_defs Let_def round64_exact)
  from generateClientInvoice_at_most_once[OF run1, of "''I2''" "hour 0" "hour 24"]
  show ?thesis using run1 by auto
qed

text \<open>
  C1 as stated also promises \<open>totalAmount = 0\<close> for a second run over any overlapping
  period. That fails: the first run over hours 0 to 15 bills activity \<open>A\<close> (200); the
  second, over the overlapping hours 12 to 30, selects the still \<open>VERIFIED\<close> activity
  \<open>B\<close> and bills 100.
\<close>

theorem overlapping_period_counterexample:
  "fst (generateClientInvoice ''I1'' ''C'' (hour 0) (hour 15)
         (demo_store [demo_activity ''A'' 10 14 (Some ''W'') VERIFIED,
                      demo_activity ''B'' 20 22 (Some ''W'') VERIFIED]))
     = Inr (\<lparr>inv_id = ''I1'', inv_type = CLIENT_BILL, entityId = ''C'', totalAmount = Num 200,
             periodStart = hour 0, periodEnd = hour 15, inv_status = DRAFT,
             inv_clientId = Some ''C'', inv_workerId = None\<rparr>,
            [demo_activity ''A'' 10 14 (Some ''W'') VERIFIED]) \<and>
   fst (generateClientInvoice ''I2'' ''C'' (hour 12) (hour 30)
         (snd (generateClientInvoice ''I1'' ''C'' (hour 0) (hour 15)
            (demo_store [demo_activity ''A'' 10 14 (Some ''W'') VERIFIED,
                         demo_activity ''B'' 20 22 (Some ''W'') VERIFIED]))))
     = Inr (\<lparr>inv_id = ''I2'', inv_type = CLIENT_BILL, entityId = ''C'', totalAmount = Num 100,
             periodStart = hour 12, periodEnd = hour 30, inv_status = DRAFT,
             inv_clientId = Some ''C'', inv_workerId = None\<rparr>,
            [demo_activity ''B'' 20 22 (Some ''W'') VERIFIED])"
  by (simp add: generateClientInvoice_def client_findUnique_def client_selection_def
        invoice_create_def activity_updateMany_def or_zero_def demo_defs Let_def round64_exact)

section \<open>Worker payout\<close>

lemma generateWorkerPayout_result:
  assumes "user_findUnique wid s = Some w"
  shows "generateWorkerPayout n wid p q s =
    (Inr (\<lparr>inv_id = n, inv_type = WORKER_PAYOUT, entityId = wid,
           totalAmount = fmul (sum_doubles (map durationHours
                                 (filter (worker_selection wid p q) (activities s)))) (hourlyRate w),
           periodStart = p, periodEnd = q, inv_status = DRAFT,
           inv_clientId = None, inv_workerId = Some wid\<rparr>,
          filter (worker_selection wid p q) (activities s),
          sum_doubles (map durationHours (filter (worker_selection wid p q) (activities s)))),
     s\<lparr>invoices := invoices s @ [\<lparr>inv_id = n, inv_type = WORKER_PAYOUT, entityId = wid,
           totalAmount = fmul (sum_doubles (map durationHours
                                 (filter (worker_selection wid p q) (activities s)))) (hourlyRate w),
           periodStart = p, periodEnd = q, inv_status = DRAFT,
           inv_clientId = None, inv_workerId = Some wid\<rparr>]\<rparr>)"
  using assms
  by (simp add: generateWorkerPayout_def Let_def sum_doubles_map invoice_create_def)

lemma generateWorkerPayout_missing:
  "user_findUnique wid s = None \<Longrightarrow> generateWorkerPayout n wid p q s = (Inl TypeError, s)"
  by (simp add: generateWorkerPayout_def)

text \<open>
  C6. For an existing worker, \<open>generateWorkerPayout\<close> succeeds; it selects the worker's
  \<open>VERIFIED\<close> activities that lie wholly inside the period; \<open>totalAmount\<close> is the sum of
  their \<open>durationHours\<close> (accumulated from 0 in the order of the selection) times the
  worker's \<open>hourlyRate\<close>, in the code's numbers; the invoice is a \<open>DRAFT\<close> worker payout
  appended to the invoices; and the activities (status and every other field), clients,
  users and contracts of the store are unchanged, so that a later payout run over the same
  period selects the same activities and pays the same amount again.
\<close>

theorem generateWorkerPayout_spec:
  assumes "user_findUnique wid s = Some w"
  shows "\<exists>invoice acts hours s'.
     generateWorkerPayout n wid p q s = (Inr (invoice, acts, hours), s') \<and>
     acts = filter (\<lambda>a. workerId a = Some wid \<and> status a = VERIFIED \<and>
                         p \<le> scheduledStart a \<and> scheduledEnd a \<le> q) (activities s) \<and>
     hours = sum_doubles (map durationHours acts) \<and>
     totalAmount invoice = fmul (sum_doubles (map durationHours acts)) (hourlyRate w) \<and>
     inv_type invoice = WORKER_PAYOUT \<and> entityId invoice = wid \<and> inv_status invoice = DRAFT \<and>
     periodStart invoice = p \<and> periodEnd invoice = q \<and>
     invoices s' = invoices s @ [invoice] \<and>
     activities s' = activities s \<and> clients s' = clients s \<and> users s' = users s \<and>
     contracts s' = contracts s \<and>
     (\<exists>invoice2 hours2 s2.
        generateWorkerPayout n2 wid p q s' = (Inr (invoice2, acts, hours2), s2) \<and>
        totalAmount invoice2 = totalAmount invoice)"
proof -
  let ?s' = "snd (generateWorkerPayout n wid p q s)"
  let ?acts = "filter (worker_selection wid p q) (activities s)"
  have s': "activities ?s' = activities s" "users ?s' = users s"
    by (simp_all add: generateWorkerPayout_result[OF assms])
  then have w': "user_findUnique wid ?s' = Some w"
    using assms by (simp add: user_findUnique_def)
  have again: "fst (generateWorkerPayout n2 wid p q ?s') =
     Inr (\<lparr>inv_id = n2, inv_type = WORKER_PAYOUT, entityId = wid,
           totalAmount = fmul (sum_doubles (map durationHours ?acts)) (hourlyRate w),
           periodStart = p, periodEnd = q, inv_status = DRAFT,
           inv_clientId = None, inv_workerId = Some wid\<rparr>,
          ?acts, sum_doubles (map durationHours ?acts))"
    by (simp add: generateWorkerPayout_result[OF w'] s')
  have second: "\<exists>invoice2 hours2 s2.
        generateWorkerPayout n2 wid p q ?s' = (Inr (invoice2, ?acts, hours2), s2) \<and>
        totalAmount invoice2 = fmul (sum_doubles (map durationHours ?acts)) (hourlyRate w)"
    using again by (metis invoice.select_convs(4) prod.collapse)
  show ?thesis
    using second unfolding worker_selection_filter[symmetric]
    by (simp add: generateWorkerPayout_result[OF assms])
qed

text \<open>
  One verified activity of 4 hours at an hourly rate of 20 is paid 80, twice. Two verified
  activities of 6 and 12 minutes are 0.30000000000000004 hours, paid 6.000000000000001.
\<close>

theorem generateWorkerPayout_spec_witness:
  "user_findUnique ''W'' (demo_store [demo_activity ''A'' 10 14 (Some ''W'') VERIFIED])
     = Some demo_worker \<and>
   (\<exists>invoice hours s'.
      generateWorkerPayout ''P1'' ''W'' (hour 0) (hour 24)
        (demo_store [demo_activity ''A'' 10 14 (Some ''W'') VERIFIED])
        = (Inr (invoice, [demo_activity ''A'' 10 14 (Some ''W'') VERIFIED], hours), s') \<and>
      totalAmount invoice = Num 80 \<and> inv_status invoice = DRAFT \<and>
      activities s' = [demo_activity ''A'' 10 14 (Some ''W'') VERIFIED] \<and>
      (\<exists>invoice2 hours2 s2.
         generateWorkerPayout ''P2'' ''W'' (hour 0) (hour 24) s'
           = (Inr (invoice2, [demo_activity ''A'' 10 14 (Some ''W'') VERIFIED], hours2), s2) \<and>
         totalAmount invoice2 = Num 80)) \<and>
   (\<exists>invoice s'.
      generateWorkerPayout ''P3'' ''W'' (hour 0) (hour 24)
        (demo_store [minutes_activity ''B'' 0 6 (Some ''W'') VERIFIED,
                     minutes_activity ''D'' 60 72 (Some ''W'') VERIFIED])
        = (Inr (invoice, [minutes_activity ''B'' 0 6 (Some ''W'') VERIFIED,
                          minutes_activity ''D'' 60 72 (Some ''W'') VERIFIED], Num (1351079888211149 / 4503599627370496)), s') \<and>
      totalAmount invoice = Num (6755399441055745 / 1125899906842624))"
proof -
  have w: "user_findUnique ''W'' (demo_store acts) = Some demo_worker" for acts
    by (simp add: user_findUnique_def demo_defs)
  have sel: "filter (\<lambda>a. workerId a = Some ''W'' \<and> status a = VERIFIED \<and>
                hour 0 \<le> scheduledStart a \<and> scheduledEnd a \<le> hour 24)
               (activities (demo_store [demo_activity ''A'' 10 14 (Some ''W'') VERIFIED]))
             = [demo_activity ''A'' 10 14 (Some ''W'') VERIFIED]"
    by (simp add: demo_defs)
  have rate: "hourlyRate demo_worker = Num 20"
     "durationHours (demo_activity ''A'' 10 14 (Some ''W'') VERIFIED) = Num 4"
     "activities (demo_store [demo_activity ''A'' 10 14 (Some ''W'') VERIFIED])
        = [demo_activity ''A'' 10 14 (Some ''W'') VERIFIED]"
    by (simp_all add: demo_defs)
  have whole: "\<exists>invoice hours s'.
      generateWorkerPayout ''P1'' ''W'' (hour 0) (hour 24)
        (demo_store [demo_activity ''A'' 10 14 (Some ''W'') VERIFIED])
        = (Inr (invoice, [demo_activity ''A'' 10 14 (Some ''W'') VERIFIED], hours), s') \<and>
      totalAmount invoice = Num 80 \<and> inv_status invoice = DRAFT \<and>
      activities s' = [demo_activity ''A'' 10 14 (Some ''W'') VERIFIED] \<and>
      (\<exists>invoice2 hours2 s2.
         generateWorkerPayout ''P2'' ''W'' (hour 0) (hour 24) s'
           = (Inr (invoice2, [demo_activity ''A'' 10 14 (Some ''W'') VERIFIED], hours2), s2) \<and>
         totalAmount invoice2 = Num 80)"
    using generateWorkerPayout_spec[OF w, of "''P1''" "hour 0" "hour 24"
        "[demo_activity ''A'' 10 14 (Some ''W'') VERIFIED]" "''P2''"]
    unfolding sel using rate by (auto simp: sum_doubles_def round64_exact)
  have sel2: "filter (\<lambda>a. workerId a = Some ''W'' \<and> status a = VERIFIED \<and>
                hour 0 \<le> scheduledStart a \<and> scheduledEnd a \<le> hour 24)
               (activities (demo_store [minutes_activity ''B'' 0 6 (Some ''W'') VERIFIED,
                     minutes_activity ''D'' 60 72 (Some ''W'') VERIFIED]))
             = [minutes_activity ''B'' 0 6 (Some ''W'') VERIFIED,
                minutes_activity ''D'' 60 72 (Some ''W'') VERIFIED]"
    by (simp add: demo_defs minutes_activity_def minute_def)
  have durations: "durationHours (minutes_activity ''B'' 0 6 (Some ''W'') VERIFIED) = Num (3602879701896397 / 36028797018963968)"
    "durationHours (minutes_activity ''D'' 60 72 (Some ''W'') VERIFIED) = Num (3602879701896397 / 18014398509481984)"
    by (simp_all add: minutes_activity_def minute_def known_answers)
  have hours: "sum_doubles [Num (3602879701896397 / 36028797018963968), Num (3602879701896397 / 18014398509481984)] = Num (1351079888211149 / 4503599627370496)"
    by (simp add: sum_doubles_def known_answers)
  have pay: "fmul (Num (1351079888211149 / 4503599627370496)) (Num 20) = Num (6755399441055745 / 1125899906842624)"
    by (simp add: known_answers)
  have minutes: "\<exists>invoice s'.
      generateWorkerPayout ''P3'' ''W'' (hour 0) (hour 24)
        (demo_store [minutes_activity ''B'' 0 6 (Some ''W'') VERIFIED,
                     minutes_activity ''D'' 60 72 (Some ''W'') VERIFIED])
        = (Inr (invoice, [minutes_activity ''B'' 0 6 (Some ''W'') VERIFIED,
                          minutes_activity ''D'' 60 72 (Some ''W'') VERIFIED], Num (1351079888211149 / 4503599627370496)), s') \<and>
      totalAmount invoice = Num (6755399441055745 / 1125899906842624)"
    using generateWorkerPayout_spec[OF w, of "''P3''" "hour 0" "hour 24"
        "[minutes_activity ''B'' 0 6 (Some ''W'') VERIFIED,
          minutes_activity ''D'' 60 72 (Some ''W'') VERIFIED]" "''P4''"]
    unfolding sel2 by (auto simp: durations hours pay rate(1) known_answers)
  from w whole minutes show ?thesis by blast
qed

section \<open>Failures of the invoice endpoints\<close>

text \<open>
  What the two endpoints do hold: a period with \<open>periodEnd \<le> periodStart\<close> is rejected
  by the schema (\<open>ZodError\<close>, status 400) and a missing client or worker makes the run
  fail; in both cases the store is returned as it was.
\<close>

lemma invoice_flows_bad_period:
  assumes "body_periodEnd b \<le> body_periodStart b"
  shows "generateClientInvoice_controller n b s = (Inl ZodError, s)"
    and "generateWorkerPayout_controller n b s = (Inl ZodError, s)"
  using assms
  by (simp_all add: generateClientInvoice_controller_def generateWorkerPayout_controller_def
      validateInvoice_def)

lemma invoice_flows_missing_target:
  assumes "body_periodStart b < body_periodEnd b"
  shows "body_type b = CLIENT_BILL \<Longrightarrow> client_findUnique (body_entityId b) s = None \<Longrightarrow>
           generateClientInvoice_controller n b s = (Inl TypeError, s)"
    and "body_type b = WORKER_PAYOUT \<Longrightarrow> user_findUnique (body_entityId b) s = None \<Longrightarrow>
           generateWorkerPayout_controller n b s = (Inl TypeError, s)"
  using assms
  by (simp_all add: generateClientInvoice_controller_def generateWorkerPayout_controller_def
      validateInvoice_def generateClientInvoice_missing generateWorkerPayout_missing)

text \<open>
  C7 at the failing input: a well-formed body whose \<open>entityId\<close> names no client
  (respectively no worker). The service reads \<open>billingRate\<close> (respectively
  \<open>hourlyRate\<close>) of \<open>null\<close>, the \<open>TypeError\<close> reaches the error handler, and the answer
  is status 500, where a \<open>NotFoundError\<close> would have been answered with 404. Nothing is
  written.
\<close>

theorem missing_target_is_TypeError:
  "generateClientInvoice_controller ''I'' (demo_invoice_body CLIENT_BILL ''X'' 0 24) (demo_store [])
     = (Inl TypeError, demo_store []) \<and>
   generateWorkerPayout_controller ''I'' (demo_invoice_body WORKER_PAYOUT ''X'' 0 24) (demo_store [])
     = (Inl TypeError, demo_store []) \<and>
   errorHandler TypeError = 500 \<and> errorHandler (NotFoundError ''Client'') = 404"
  by (simp add: generateClientInvoice_controller_def generateWorkerPayout_controller_def
      validateInvoice_def generateClientInvoice_def generateWorkerPayout_def
      client_findUnique_def user_findUnique_def demo_defs)

section \<open>Contract hour ledger\<close>

lemma find_Some_set: "find P xs = Some x \<Longrightarrow> x \<in> set xs \<and> P x"
  by (induction xs) (auto split: if_splits)

lemma counted_filter:
  "filter (counted k) xs =
   filter (\<lambda>a. contractId a = Some k \<and> (status a = VERIFIED \<or> status a = INVOICED)) xs"
  by (rule filter_cong) (simp_all add: counted_def)

lemma usedHours_sum_doubles:
  "usedHours k s = sum_doubles (map durationHours (filter (counted k) (activities s)))"
  by (simp add: usedHours_def sum_doubles_map)

lemma contract_findUnique_id: "contract_findUnique k s = Some c \<Longrightarrow> contract_id c = k"
  by (auto simp: contract_findUnique_def dest: find_Some_set)

lemma activity_findUnique_set:
  "activity_findUnique i s = Some a \<Longrightarrow> a \<in> set (activities s) \<and> act_id a = i"
  by (auto simp: activity_findUnique_def dest: find_Some_set)

lemma validateContractHours_found:
  assumes "contract_findUnique k s = Some c"
  shows "validateContractHours k h s =
     (if fgt h (fsub (totalHours c) (usedHours k s))
      then Inl (InsufficientHours (fsub (totalHours c) (usedHours k s))) else Inr ())"
  using assms contract_findUnique_id[OF assms]
  by (simp add: validateContractHours_def Let_def)

text \<open>
  The values of the ledger, for both handlers of the route: \<open>usedHours\<close> is the sum of
  \<open>durationHours\<close> over the contract's \<open>VERIFIED\<close> and \<open>INVOICED\<close> activities, the
  fourth number is \<open>totalHours - usedHours\<close>, and \<open>validateContractHours\<close> fails with
  \<open>InsufficientHours\<close> exactly when the requested hours exceed that number; sum,
  difference and comparison are those of the code's numbers.
\<close>

lemma hours_ledger_values:
  assumes "contract_findUnique k s = Some c"
  shows "getHoursRemaining k s =
           Inr [(''contractId'', JString k), (''totalHours'', json_number (totalHours c)),
                (''usedHours'', json_number (sum_doubles (map durationHours
                     (filter (\<lambda>a. contractId a = Some k \<and>
                        (status a = VERIFIED \<or> status a = INVOICED)) (activities s))))),
                (''remaining'', json_number (fsub (totalHours c) (sum_doubles (map durationHours
                     (filter (\<lambda>a. contractId a = Some k \<and>
                        (status a = VERIFIED \<or> status a = INVOICED)) (activities s))))))]"
    and "getHoursRemaining_ts k s =
           Inr [(''contractId'', JString k), (''totalHours'', json_number (totalHours c)),
                (''usedHours'', json_number (sum_doubles (map durationHours
                     (filter (\<lambda>a. contractId a = Some k \<and>
                        (status a = VERIFIED \<or> status a = INVOICED)) (activities s))))),
                (''remainingHours'', json_number (fsub (totalHours c) (sum_doubles (map durationHours
                     (filter (\<lambda>a. contractId a = Some k \<and>
                        (status a = VERIFIED \<or> status a = INVOICED)) (activities s))))))]"
    and "(\<exists>r. validateContractHours k h s = Inl (InsufficientHours r)) \<longleftrightarrow>
           fgt h (fsub (totalHours c) (sum_doubles (map durationHours
                     (filter (\<lambda>a. contractId a = Some k \<and>
                        (status a = VERIFIED \<or> status a = INVOICED)) (activities s)))))"
  using assms contract_findUnique_id[OF assms]
  unfolding counted_filter[symmetric]
  by (simp_all add: getHoursRemaining_def getHoursRemaining_ts_def Let_def usedHours_sum_doubles
      validateContractHours_found)

text \<open>
  C4 at the failing input: contract \<open>K\<close> of 10 hours with one \<open>VERIFIED\<close> activity of
  4 hours and one \<open>SCHEDULED\<close> activity of 3 hours. The numbers are the claim's (10, 4,
  6; a request of 7 hours is refused with 6 remaining), but the handler of
  \<open>controllers/contracts.js\<close> answers them under the key \<open>remaining\<close>: its object has no
  key \<open>remainingHours\<close>, which the TypeScript handler of the same route does use.
\<close>

theorem hours_remaining_key:
  "getHoursRemaining ''K''
     (demo_store [demo_activity ''A'' 10 14 (Some ''W'') VERIFIED,
                  demo_activity ''B'' 20 23 (Some ''W'') SCHEDULED])
     = Inr [(''contractId'', JString ''K''), (''totalHours'', JNumber 10),
            (''usedHours'', JNumber 4), (''remaining'', JNumber 6)] \<and>
   map_of [(''contractId'', JString ''K''), (''totalHours'', JNumber 10),
            (''usedHours'', JNumber 4), (''remaining'', JNumber 6)] ''remainingHours'' = None \<and>
   getHoursRemaining_ts ''K''
     (demo_store [demo_activity ''A'' 10 14 (Some ''W'') VERIFIED,
                  demo_activity ''B'' 20 23 (Some ''W'') SCHEDULED])
     = Inr [(''contractId'', JString ''K''), (''totalHours'', JNumber 10),
            (''usedHours'', JNumber 4), (''remainingHours'', JNumber 6)] \<and>
   validateContractHours ''K'' (Num 7)
     (demo_store [demo_activity ''A'' 10 14 (Some ''W'') VERIFIED,
                  demo_activity ''B'' 20 23 (Some ''W'') SCHEDULED])
     = Inl (InsufficientHours (Num 6))"
  by (simp add: getHoursRemaining_def getHoursRemaining_ts_def validateContractHours_def
      contract_findUnique_def usedHours_def counted_def demo_defs Let_def fsub_def
      round64_exact)

section \<open>Availability check\<close>

text \<open>
  C5. \<open>checkWorkerAvailability\<close> returns as conflicts exactly the activities of the
  store that belong to the worker, are not the excluded activity (when a non-empty
  \<open>excludeActivityId\<close> is given), have status \<open>SCHEDULED\<close> or \<open>IN_PROGRESS\<close>, and
  satisfy \<open>scheduledStart \<le> end\<close> and \<open>scheduledEnd \<ge> start\<close>, both bounds inclusive;
  \<open>available\<close> is true exactly when there is no such activity.
\<close>

theorem checkWorkerAvailability_spec:
  "(\<forall>a. a \<in> set (conflictingActivities (checkWorkerAvailability w st en ex s)) \<longleftrightarrow>
        (a \<in> set (activities s) \<and> workerId a = Some w \<and>
         (\<forall>e. ex = Val e \<and> e \<noteq> [] \<longrightarrow> act_id a \<noteq> e) \<and>
         (status a = SCHEDULED \<or> status a = IN_PROGRESS) \<and>
         scheduledStart a \<le> en \<and> scheduledEnd a \<ge> st)) \<and>
   conflictingActivities (checkWorkerAvailability w st en ex s) =
     filter (\<lambda>a. workerId a = Some w \<and>
                 (\<forall>e. ex = Val e \<and> e \<noteq> [] \<longrightarrow> act_id a \<noteq> e) \<and>
                 (status a = SCHEDULED \<or> status a = IN_PROGRESS) \<and>
                 scheduledStart a \<le> en \<and> scheduledEnd a \<ge> st) (activities s) \<and>
   available (checkWorkerAvailability w st en ex s) =
     (conflictingActivities (checkWorkerAvailability w st en ex s) = [])"
proof -
  have ne: "not_excluded ex a = (\<forall>e. ex = Val e \<and> e \<noteq> [] \<longrightarrow> act_id a \<noteq> e)" for a
    by (cases ex) (simp_all add: not_excluded_def)
  have f: "filter (conflicts_with w st en ex) (activities s) =
     filter (\<lambda>a. workerId a = Some w \<and>
                 (\<forall>e. ex = Val e \<and> e \<noteq> [] \<longrightarrow> act_id a \<noteq> e) \<and>
                 (status a = SCHEDULED \<or> status a = IN_PROGRESS) \<and>
                 scheduledStart a \<le> en \<and> scheduledEnd a \<ge> st) (activities s)"
    by (rule filter_cong) (simp_all add: conflicts_with_def ne)
  show ?thesis
    unfolding checkWorkerAvailability_def Let_def f by auto
qed

text \<open>
  The examples of the specification: against a committed activity from 10:00 to 12:00,
  11:00 to 13:00 conflicts, 08:00 to 09:00 does not, and 12:00 to 14:00 conflicts at the
  shared endpoint. Excluding the activity itself, or an activity that is \<open>DONE\<close>, gives
  no conflict.
\<close>

theorem checkWorkerAvailability_spec_witness:
  "conflictingActivities (checkWorkerAvailability ''W'' (hour 11) (hour 13) Undefined
      (demo_store [demo_activity ''A'' 10 12 (Some ''W'') SCHEDULED]))
     = [demo_activity ''A'' 10 12 (Some ''W'') SCHEDULED] \<and>
   \<not> available (checkWorkerAvailability ''W'' (hour 11) (hour 13) Undefined
      (demo_store [demo_activity ''A'' 10 12 (Some ''W'') SCHEDULED])) \<and>
   available (checkWorkerAvailability ''W'' (hour 8) (hour 9) Undefined
      (demo_store [demo_activity ''A'' 10 12 (Some ''W'') SCHEDULED])) \<and>
   \<not> available (checkWorkerAvailability ''W'' (hour 12) (hour 14) Undefined
      (demo_store [demo_activity ''A'' 10 12 (Some ''W'') SCHEDULED])) \<and>
   available (checkWorkerAvailability ''W'' (hour 11) (hour 13) (Val ''A'')
      (demo_store [demo_activity ''A'' 10 12 (Some ''W'') SCHEDULED])) \<and>
   available (checkWorkerAvailability ''W'' (hour 11) (hour 13) Undefined
      (demo_store [demo_activity ''A'' 10 12 (Some ''W'') DONE]))"
  using checkWorkerAvailability_spec[of "''W''" "hour 11" "hour 13" Undefined
          "demo_store [demo_activity ''A'' 10 12 (Some ''W'') SCHEDULED]"]
        checkWorkerAvailability_spec[of "''W''" "hour 8" "hour 9" Undefined
          "demo_store [demo_activity ''A'' 10 12 (Some ''W'') SCHEDULED]"]
        checkWorkerAvailability_spec[of "''W''" "hour 12" "hour 14" Undefined
          "demo_store [demo_activity ''A'' 10 12 (Some ''W'') SCHEDULED]"]
        checkWorkerAvailability_spec[of "''W''" "hour 11" "hour 13" "Val ''A''"
          "demo_store [demo_activity ''A'' 10 12 (Some ''W'') SCHEDULED]"]
        checkWorkerAvailability_spec[of "''W''" "hour 11" "hour 13" Undefined
          "demo_store [demo_activity ''A'' 10 12 (Some ''W'') DONE]"]
  by (simp add: demo_defs)

section \<open>Activity endpoints\<close>

lemma activity_findUnique_None:
  "activity_findUnique i s = None \<Longrightarrow> activity_update i f s = (Inl (PrismaError ''P2025''), s)"
  by (simp add: activity_update_def)

lemma activity_update_Inr:
  assumes "activity_update i f s = (Inr a', s')"
  shows "\<exists>a. activity_findUnique i s = Some a \<and> a' = f a \<and>
             activities s' = map (\<lambda>x. if act_id x = i then f x else x) (activities s)"
  using assms
  by (auto simp: activity_update_def split: option.splits if_splits)


lemma status_update_references:
  "references_ok_update s a (a\<lparr>status := st\<rparr>)"
  by (simp add: references_ok_update_def)

lemmas handler_defs = create_def update_def assignWorker_def updateStatus_def
  validateActivity_def check_contract_def validateContractHours_def usedHours_def counted_def
  activity_create_def activity_update_def activity_findUnique_def
  contract_findUnique_def references_ok_def references_ok_update_def update_data_def
  assign_data_def checkWorkerAvailability_def conflicts_with_def not_excluded_def

lemmas number_defs = calculateDuration_def getTime_def fsub_def round64_exact








subsection \<open>Status changes\<close>

text \<open>
  C3, as the code has it. \<open>updateStatus\<close> checks no transition: for an existing activity
  and any requested status (forward, backward, the same, \<open>INVOICED\<close> included) it
  succeeds, answers the activity with the requested status and stores that status in the
  row, changing nothing else. It fails only when no activity has the id (\<open>P2025\<close>,
  answered with 404). The TypeScript handler does the same.
\<close>

theorem updateStatus_unchecked:
  "(activity_findUnique i s = Some a \<longrightarrow>
      updateStatus i st s =
        (Inr (a\<lparr>status := st\<rparr>),
         s\<lparr>activities := map (\<lambda>x. if act_id x = i then x\<lparr>status := st\<rparr> else x) (activities s)\<rparr>) \<and>
      updateStatus_ts i st s = updateStatus i st s) \<and>
   (activity_findUnique i s = None \<longrightarrow>
      updateStatus i st s = (Inl (PrismaError ''P2025''), s) \<and>
      updateStatus_ts i st s = (Inl (NotFoundError ''Activity''), s) \<and>
      errorHandler (PrismaError ''P2025'') = 404)"
  by (simp add: updateStatus_def updateStatus_ts_def activity_update_def status_update_references)

text \<open>A backward move from \<open>VERIFIED\<close> to \<open>SCHEDULED\<close>, and an unknown id.\<close>

theorem updateStatus_unchecked_witness:
  "activity_findUnique ''A'' (demo_store [demo_activity ''A'' 10 14 (Some ''W'') VERIFIED])
     = Some (demo_activity ''A'' 10 14 (Some ''W'') VERIFIED) \<and>
   updateStatus ''A'' SCHEDULED (demo_store [demo_activity ''A'' 10 14 (Some ''W'') VERIFIED])
     = (Inr (demo_activity ''A'' 10 14 (Some ''W'') SCHEDULED),
        demo_store [demo_activity ''A'' 10 14 (Some ''W'') SCHEDULED]) \<and>
   activity_findUnique ''Z'' (demo_store [demo_activity ''A'' 10 14 (Some ''W'') VERIFIED]) = None \<and>
   updateStatus ''Z'' SCHEDULED (demo_store [demo_activity ''A'' 10 14 (Some ''W'') VERIFIED])
     = (Inl (PrismaError ''P2025''), demo_store [demo_activity ''A'' 10 14 (Some ''W'') VERIFIED])"
  using updateStatus_unchecked[of "''A''" "demo_store [demo_activity ''A'' 10 14 (Some ''W'') VERIFIED]"
          "demo_activity ''A'' 10 14 (Some ''W'') VERIFIED" SCHEDULED]
        updateStatus_unchecked[of "''Z''" "demo_store [demo_activity ''A'' 10 14 (Some ''W'') VERIFIED]"
          "demo_activity ''A'' 10 14 (Some ''W'') VERIFIED" SCHEDULED]
  by (simp add: activity_findUnique_def demo_defs)

text \<open>
  C3 as stated fails: a freshly created \<open>UNASSIGNED\<close> activity is moved directly to
  \<open>INVOICED\<close> by \<open>updateStatus\<close> (by either handler), and back to \<open>UNASSIGNED\<close>.
\<close>

theorem unassigned_to_invoiced_counterexample:
  "create ''A'' (demo_body 10 14 Undefined) (demo_store [])
     = (Inr (demo_activity ''A'' 10 14 None UNASSIGNED),
        demo_store [demo_activity ''A'' 10 14 None UNASSIGNED]) \<and>
   updateStatus ''A'' INVOICED (demo_store [demo_activity ''A'' 10 14 None UNASSIGNED])
     = (Inr (demo_activity ''A'' 10 14 None INVOICED),
        demo_store [demo_activity ''A'' 10 14 None INVOICED]) \<and>
   updateStatus_ts ''A'' INVOICED (demo_store [demo_activity ''A'' 10 14 None UNASSIGNED])
     = (Inr (demo_activity ''A'' 10 14 None INVOICED),
        demo_store [demo_activity ''A'' 10 14 None INVOICED]) \<and>
   updateStatus ''A'' UNASSIGNED (demo_store [demo_activity ''A'' 10 14 None INVOICED])
     = (Inr (demo_activity ''A'' 10 14 None UNASSIGNED),
        demo_store [demo_activity ''A'' 10 14 None UNASSIGNED])"
  by (simp add: handler_defs number_defs updateStatus_ts_def demo_defs Let_def)

subsection \<open>Derived duration\<close>



subsection \<open>Worker assignment\<close>

lemma assign_data_Val:
  "w \<noteq> [] \<Longrightarrow> assign_data (Val w) a = a\<lparr>workerId := Some w, status := SCHEDULED\<rparr>"
  by (simp add: assign_data_def)

lemma assign_data_Null:
  "assign_data Null a = a\<lparr>workerId := None, status := UNASSIGNED\<rparr>"
  by (simp add: assign_data_def)

lemma assignWorker_Inr:
  assumes "assignWorker i wid s = (Inr a', s')"
  shows "\<exists>a. activity_findUnique i s = Some a \<and> a' = assign_data wid a"
proof (cases "activity_findUnique i s")
  case None
  with assms show ?thesis by (simp add: assignWorker_def)
next
  case (Some a)
  with assms have "activity_update i (assign_data wid) s = (Inr a', s')"
    by (auto simp: assignWorker_def Let_def split: property.splits if_splits)
  from activity_update_Inr[OF this] Some show ?thesis by auto
qed

text \<open>
  C8, as the code has it. \<open>assignWorker\<close> couples worker and status in two cases. For
  an existing activity, a non-empty worker id that names a user and has no conflict is
  stored with status \<open>SCHEDULED\<close>, and \<open>workerId: null\<close> is stored as no worker with
  status \<open>UNASSIGNED\<close>; whenever \<open>assignWorker\<close> succeeds with a non-empty worker id
  the answered activity has that worker and is \<open>SCHEDULED\<close>, and whenever it succeeds
  with \<open>null\<close> the activity has no worker and is \<open>UNASSIGNED\<close>. \<open>updateStatus\<close>
  writes the status alone and keeps \<open>workerId\<close> as it was. Nothing is stated for a
  request body without the key \<open>workerId\<close>.
\<close>

theorem assignWorker_couples_worker_and_status:
  "(\<forall>a. activity_findUnique i s = Some a \<and> w \<noteq> [] \<and> w \<in> set (map user_id (users s)) \<and>
        available (checkWorkerAvailability w (scheduledStart a) (scheduledEnd a) (Val i) s) \<longrightarrow>
        assignWorker i (Val w) s =
          (Inr (a\<lparr>workerId := Some w, status := SCHEDULED\<rparr>),
           s\<lparr>activities := map (\<lambda>x. if act_id x = i
                                       then x\<lparr>workerId := Some w, status := SCHEDULED\<rparr> else x)
                                 (activities s)\<rparr>)) \<and>
   (\<forall>a. activity_findUnique i s = Some a \<longrightarrow>
        assignWorker i Null s =
          (Inr (a\<lparr>workerId := None, status := UNASSIGNED\<rparr>),
           s\<lparr>activities := map (\<lambda>x. if act_id x = i
                                       then x\<lparr>workerId := None, status := UNASSIGNED\<rparr> else x)
                                 (activities s)\<rparr>)) \<and>
   (\<forall>a' s'. assignWorker i (Val w) s = (Inr a', s') \<and> w \<noteq> [] \<longrightarrow>
        workerId a' = Some w \<and> status a' = SCHEDULED) \<and>
   (\<forall>a' s'. assignWorker i Null s = (Inr a', s') \<longrightarrow>
        workerId a' = None \<and> status a' = UNASSIGNED) \<and>
   (\<forall>a st. activity_findUnique i s = Some a \<longrightarrow>
        fst (updateStatus i st s) = Inr (a\<lparr>status := st\<rparr>) \<and>
        workerId (a\<lparr>status := st\<rparr>) = workerId a)"
proof (intro conjI allI impI)
  fix a
  assume h: "activity_findUnique i s = Some a \<and> w \<noteq> [] \<and> w \<in> set (map user_id (users s)) \<and>
        available (checkWorkerAvailability w (scheduledStart a) (scheduledEnd a) (Val i) s)"
  then have ref: "references_ok_update s a (a\<lparr>workerId := Some w, status := SCHEDULED\<rparr>)"
    by (simp add: references_ok_update_def)
  from h have ad: "assign_data (Val w) = (\<lambda>x. x\<lparr>workerId := Some w, status := SCHEDULED\<rparr>)"
    by (simp add: fun_eq_iff assign_data_Val)
  from h ref show "assignWorker i (Val w) s =
          (Inr (a\<lparr>workerId := Some w, status := SCHEDULED\<rparr>),
           s\<lparr>activities := map (\<lambda>x. if act_id x = i
                                       then x\<lparr>workerId := Some w, status := SCHEDULED\<rparr> else x)
                                 (activities s)\<rparr>)"
    unfolding assignWorker_def ad by (simp add: activity_update_def)
next
  fix a
  assume h: "activity_findUnique i s = Some a"
  have ref: "references_ok_update s a (a\<lparr>workerId := None, status := UNASSIGNED\<rparr>)"
    by (simp add: references_ok_update_def)
  have ad: "assign_data Null = (\<lambda>x. x\<lparr>workerId := None, status := UNASSIGNED\<rparr>)"
    by (simp add: fun_eq_iff assign_data_Null)
  from h ref show "assignWorker i Null s =
          (Inr (a\<lparr>workerId := None, status := UNASSIGNED\<rparr>),
           s\<lparr>activities := map (\<lambda>x. if act_id x = i
                                       then x\<lparr>workerId := None, status := UNASSIGNED\<rparr> else x)
                                 (activities s)\<rparr>)"
    unfolding assignWorker_def ad by (simp add: activity_update_def)
next
  fix a' s'
  assume h: "assignWorker i (Val w) s = (Inr a', s') \<and> w \<noteq> []"
  then obtain a where "a' = assign_data (Val w) a" using assignWorker_Inr by blast
  with h show "workerId a' = Some w" "status a' = SCHEDULED"
    by (simp_all add: assign_data_Val)
next
  fix a' s'
  assume "assignWorker i Null s = (Inr a', s')"
  then obtain a where "a' = assign_data Null a" using assignWorker_Inr by blast
  then show "workerId a' = None" "status a' = UNASSIGNED"
    by (simp_all add: assign_data_Null)
next
  fix a st
  assume "activity_findUnique i s = Some a"
  then show "fst (updateStatus i st s) = Inr (a\<lparr>status := st\<rparr>)"
    by (simp add: updateStatus_def activity_update_def status_update_references)
  show "workerId (a\<lparr>status := st\<rparr>) = workerId a" by simp
qed

text \<open>Assigning worker \<open>W\<close> to a fresh activity, then clearing the worker again.\<close>

theorem assignWorker_couples_worker_and_status_witness:
  "activity_findUnique ''A'' (demo_store [demo_activity ''A'' 10 14 None UNASSIGNED])
     = Some (demo_activity ''A'' 10 14 None UNASSIGNED) \<and>
   available (checkWorkerAvailability ''W'' (hour 10) (hour 14) (Val ''A'')
     (demo_store [demo_activity ''A'' 10 14 None UNASSIGNED])) \<and>
   assignWorker ''A'' (Val ''W'') (demo_store [demo_activity ''A'' 10 14 None UNASSIGNED])
     = (Inr (demo_activity ''A'' 10 14 (Some ''W'') SCHEDULED),
        demo_store [demo_activity ''A'' 10 14 (Some ''W'') SCHEDULED]) \<and>
   assignWorker ''A'' Null (demo_store [demo_activity ''A'' 10 14 (Some ''W'') SCHEDULED])
     = (Inr (demo_activity ''A'' 10 14 None UNASSIGNED),
        demo_store [demo_activity ''A'' 10 14 None UNASSIGNED])"
proof -
  have f1: "activity_findUnique ''A'' (demo_store [demo_activity ''A'' 10 14 None UNASSIGNED])
     = Some (demo_activity ''A'' 10 14 None UNASSIGNED)"
    by (simp add: activity_findUnique_def demo_defs)
  have f2: "activity_findUnique ''A'' (demo_store [demo_activity ''A'' 10 14 (Some ''W'') SCHEDULED])
     = Some (demo_activity ''A'' 10 14 (Some ''W'') SCHEDULED)"
    by (simp add: activity_findUnique_def demo_defs)
  have av: "available (checkWorkerAvailability ''W'' (hour 10) (hour 14) (Val ''A'')
     (demo_store [demo_activity ''A'' 10 14 None UNASSIGNED]))"
    by (simp add: checkWorkerAvailability_def conflicts_with_def demo_defs)
  have pre: "''W'' \<noteq> [] \<and> ''W'' \<in> set (map user_id (users (demo_store [demo_activity ''A'' 10 14 None UNASSIGNED])))"
    by (simp add: demo_defs)
  have times: "scheduledStart (demo_activity ''A'' 10 14 None UNASSIGNED) = hour 10"
    "scheduledEnd (demo_activity ''A'' 10 14 None UNASSIGNED) = hour 14"
    by (simp_all add: demo_activity_def)
  from assignWorker_couples_worker_and_status[of "''A''"
          "demo_store [demo_activity ''A'' 10 14 None UNASSIGNED]" "''W''"] f1 av pre times
  have a1: "assignWorker ''A'' (Val ''W'') (demo_store [demo_activity ''A'' 10 14 None UNASSIGNED])
     = (Inr ((demo_activity ''A'' 10 14 None UNASSIGNED)\<lparr>workerId := Some ''W'', status := SCHEDULED\<rparr>),
        (demo_store [demo_activity ''A'' 10 14 None UNASSIGNED])
         \<lparr>activities := map (\<lambda>x. if act_id x = ''A''
                                       then x\<lparr>workerId := Some ''W'', status := SCHEDULED\<rparr> else x)
                                 (activities (demo_store [demo_activity ''A'' 10 14 None UNASSIGNED]))\<rparr>)"
    by simp
  from assignWorker_couples_worker_and_status[of "''A''"
          "demo_store [demo_activity ''A'' 10 14 (Some ''W'') SCHEDULED]" "''W''"] f2
  have a2: "assignWorker ''A'' Null (demo_store [demo_activity ''A'' 10 14 (Some ''W'') SCHEDULED])
     = (Inr ((demo_activity ''A'' 10 14 (Some ''W'') SCHEDULED)\<lparr>workerId := None, status := UNASSIGNED\<rparr>),
        (demo_store [demo_activity ''A'' 10 14 (Some ''W'') SCHEDULED])
         \<lparr>activities := map (\<lambda>x. if act_id x = ''A''
                                       then x\<lparr>workerId := None, status := UNASSIGNED\<rparr> else x)
                                 (activities (demo_store [demo_activity ''A'' 10 14 (Some ''W'') SCHEDULED]))\<rparr>)"
    by simp
  show ?thesis
    unfolding a1 a2 using f1 av by (simp add: demo_store_def demo_activity_def)
qed

text \<open>
  C8 as stated fails: the invariant does not hold of every reachable activity. After
  \<open>create\<close>, \<open>assignWorker\<close> with \<open>W\<close> and \<open>updateStatus\<close> with \<open>UNASSIGNED\<close>, the
  activity is \<open>UNASSIGNED\<close> and still has worker \<open>W\<close>; and \<open>create\<close> with a
  \<open>workerId\<close> in the body answers an \<open>UNASSIGNED\<close> activity with that worker.
\<close>

theorem unassigned_with_worker_counterexample:
  "create ''A'' (demo_body 10 14 Undefined) (demo_store [])
     = (Inr (demo_activity ''A'' 10 14 None UNASSIGNED),
        demo_store [demo_activity ''A'' 10 14 None UNASSIGNED]) \<and>
   assignWorker ''A'' (Val ''W'') (demo_store [demo_activity ''A'' 10 14 None UNASSIGNED])
     = (Inr (demo_activity ''A'' 10 14 (Some ''W'') SCHEDULED),
        demo_store [demo_activity ''A'' 10 14 (Some ''W'') SCHEDULED]) \<and>
   updateStatus ''A'' UNASSIGNED (demo_store [demo_activity ''A'' 10 14 (Some ''W'') SCHEDULED])
     = (Inr (demo_activity ''A'' 10 14 (Some ''W'') UNASSIGNED),
        demo_store [demo_activity ''A'' 10 14 (Some ''W'') UNASSIGNED]) \<and>
   workerId (demo_activity ''A'' 10 14 (Some ''W'') UNASSIGNED) = Some ''W'' \<and>
   status (demo_activity ''A'' 10 14 (Some ''W'') UNASSIGNED) = UNASSIGNED \<and>
   create ''B'' (demo_body 10 14 (Val ''W'')) (demo_store [])
     = (Inr (demo_activity ''B'' 10 14 (Some ''W'') UNASSIGNED),
        demo_store [demo_activity ''B'' 10 14 (Some ''W'') UNASSIGNED])"
  by (simp add: handler_defs number_defs demo_defs Let_def)

subsection \<open>Capacity check on update\<close>

lemma activity_update_not_InsufficientHours:
  "fst (activity_update i f s) \<noteq> Inl (InsufficientHours r)"
  by (simp add: activity_update_def split: option.splits)

lemma update_valid:
  assumes "validateActivity b = Inr b" and "body_contractId b = Val k" and "k \<noteq> []"
    and "contract_findUnique k s = Some c"
  shows "update i b s =
     (if fgt (calculateDuration (body_scheduledStart b) (body_scheduledEnd b))
             (fsub (totalHours c) (usedHours k s))
      then (Inl (InsufficientHours (fsub (totalHours c) (usedHours k s))), s)
      else activity_update i
             (update_data b (calculateDuration (body_scheduledStart b) (body_scheduledEnd b))) s)"
  using assms
  by (simp add: update_def Let_def check_contract_def validateContractHours_found)

lemma update_null_contract:
  assumes "validateActivity b = Inr b" and "body_contractId b = Null"
  shows "update i b s =
     activity_update i
       (update_data b (calculateDuration (body_scheduledStart b) (body_scheduledEnd b))) s"
  using assms by (simp add: update_def Let_def check_contract_def)

lemma usedHours_includes:
  assumes "a \<in> set (filter (counted k) (activities s))"
  shows "\<exists>pre post. filter (counted k) (activities s) = pre @ a # post \<and>
           usedHours k s = foldl fadd (fadd (sum_doubles (map durationHours pre)) (durationHours a))
                             (map durationHours post)"
proof -
  from split_list[OF assms] obtain pre post
    where rows: "filter (counted k) (activities s) = pre @ a # post" by blast
  have "usedHours k s = foldl fadd (fadd (sum_doubles (map durationHours pre)) (durationHours a))
                             (map durationHours post)"
    unfolding usedHours_sum_doubles rows by (simp add: sum_doubles_def)
  with rows show ?thesis by blast
qed

text \<open>
  C10, as the code has it. Let the edited activity be linked to the existing contract
  \<open>k\<close> with status \<open>VERIFIED\<close> or \<open>INVOICED\<close>. The \<open>usedHours\<close> of \<open>k\<close> that the check
  computes contains the edited activity's own stored \<open>durationHours\<close>: the activity is
  one of the counted rows, and the sum passes through its duration. When the body of the
  update names contract \<open>k\<close>, the update is rejected with \<open>InsufficientHours\<close> exactly
  when the new duration exceeds \<open>totalHours - usedHours\<close> (difference and comparison of
  the code's numbers), the store unchanged; in particular re-submitting the unchanged
  duration is rejected whenever it exceeds \<open>totalHours - usedHours\<close>. When the body
  gives \<open>contractId: null\<close>, no capacity check runs and the update is never rejected
  with \<open>InsufficientHours\<close>.
\<close>

theorem update_counts_own_hours:
  assumes valid: "validateActivity b = Inr b"
    and contract: "contract_findUnique k s = Some c"
    and edited: "activity_findUnique i s = Some a"
    and linked: "contractId a = Some k" "k \<noteq> []"
    and counted: "status a = VERIFIED \<or> status a = INVOICED"
  shows "(\<exists>pre post.
            filter (\<lambda>x. contractId x = Some k \<and> (status x = VERIFIED \<or> status x = INVOICED))
              (activities s) = pre @ a # post \<and>
            usedHours k s =
              foldl fadd (fadd (sum_doubles (map durationHours pre)) (durationHours a))
                (map durationHours post)) \<and>
         (body_contractId b = Val k \<longrightarrow>
            ((\<exists>r. fst (update i b s) = Inl (InsufficientHours r)) \<longleftrightarrow>
               fgt (calculateDuration (body_scheduledStart b) (body_scheduledEnd b))
                   (fsub (totalHours c) (usedHours k s))) \<and>
            (fgt (calculateDuration (body_scheduledStart b) (body_scheduledEnd b))
                 (fsub (totalHours c) (usedHours k s)) \<longrightarrow>
               update i b s = (Inl (InsufficientHours (fsub (totalHours c) (usedHours k s))), s)) \<and>
            (calculateDuration (body_scheduledStart b) (body_scheduledEnd b) = durationHours a \<and>
             fgt (durationHours a) (fsub (totalHours c) (usedHours k s)) \<longrightarrow>
               update i b s = (Inl (InsufficientHours (fsub (totalHours c) (usedHours k s))), s))) \<and>
         (body_contractId b = Null \<longrightarrow>
            (\<forall>r. fst (update i b s) \<noteq> Inl (InsufficientHours r)))"
proof -
  let ?d = "calculateDuration (body_scheduledStart b) (body_scheduledEnd b)"
  let ?rem = "fsub (totalHours c) (usedHours k s)"
  from activity_findUnique_set[OF edited] linked(1) counted
  have "a \<in> set (filter (counted k) (activities s))" by (simp add: counted_def)
  from usedHours_includes[OF this]
  have used: "\<exists>pre post.
            filter (\<lambda>x. contractId x = Some k \<and> (status x = VERIFIED \<or> status x = INVOICED))
              (activities s) = pre @ a # post \<and>
            usedHours k s =
              foldl fadd (fadd (sum_doubles (map durationHours pre)) (durationHours a))
                (map durationHours post)"
    unfolding counted_filter .
  have named: "((\<exists>r. fst (update i b s) = Inl (InsufficientHours r)) \<longleftrightarrow> fgt ?d ?rem) \<and>
            (fgt ?d ?rem \<longrightarrow> update i b s = (Inl (InsufficientHours ?rem), s)) \<and>
            (?d = durationHours a \<and> fgt (durationHours a) ?rem \<longrightarrow>
               update i b s = (Inl (InsufficientHours ?rem), s))"
    if link: "body_contractId b = Val k"
  proof -
    note u = update_valid[OF valid link linked(2) contract, of i]
    have over: "update i b s = (Inl (InsufficientHours ?rem), s)" if "fgt ?d ?rem"
      using that by (simp add: u)
    have iff: "(\<exists>r. fst (update i b s) = Inl (InsufficientHours r)) \<longleftrightarrow> fgt ?d ?rem"
    proof (cases "fgt ?d ?rem")
      case True
      with over show ?thesis by auto
    next
      case False
      then have "update i b s = activity_update i (update_data b ?d) s" by (simp add: u)
      with False show ?thesis by (simp add: activity_update_not_InsufficientHours)
    qed
    from iff over show ?thesis by simp
  qed
  have null: "\<forall>r. fst (update i b s) \<noteq> Inl (InsufficientHours r)"
    if "body_contractId b = Null"
    by (simp add: update_null_contract[OF valid that] activity_update_not_InsufficientHours)
  from used named null show ?thesis by blast
qed

text \<open>
  Contract of 10 hours with two verified activities of 4 and 3 hours: re-submitting the
  first with its unchanged 4 hours is refused, 3 hours remaining; with \<open>contractId: null\<close>
  the same update is not refused. Contract of 10 hours with one verified activity of 74
  minutes: updating it to 526 minutes is refused, because 8.766666666666667 exceeds the
  remaining 8.766666666666666.
\<close>

theorem update_counts_own_hours_witness:
  "update ''A'' (demo_body 10 14 Undefined)
     (demo_store [demo_activity ''A'' 10 14 None VERIFIED, demo_activity ''B'' 20 23 None VERIFIED])
   = (Inl (InsufficientHours (Num 3)),
      demo_store [demo_activity ''A'' 10 14 None VERIFIED, demo_activity ''B'' 20 23 None VERIFIED]) \<and>
   usedHours ''K''
     (demo_store [demo_activity ''A'' 10 14 None VERIFIED, demo_activity ''B'' 20 23 None VERIFIED])
     = Num 7 \<and>
   durationHours (demo_activity ''A'' 10 14 None VERIFIED) = Num 4 \<and>
   calculateDuration (body_scheduledStart (demo_body 10 14 Undefined))
     (body_scheduledEnd (demo_body 10 14 Undefined)) = Num 4 \<and>
   totalHours demo_contract = Num 10 \<and>
   fst (update ''A'' ((demo_body 10 14 Undefined)\<lparr>body_contractId := Null\<rparr>)
     (demo_store [demo_activity ''A'' 10 14 None VERIFIED, demo_activity ''B'' 20 23 None VERIFIED]))
     \<noteq> Inl (InsufficientHours (Num 3)) \<and>
   update ''A'' (minutes_body 0 526 (Val ''K'')) (demo_store [minutes_activity ''A'' 0 74 None VERIFIED])
   = (Inl (InsufficientHours (Num (616899323957521 / 70368744177664))), demo_store [minutes_activity ''A'' 0 74 None VERIFIED]) \<and>
   usedHours ''K'' (demo_store [minutes_activity ''A'' 0 74 None VERIFIED]) = Num (1388609885105903 / 1125899906842624) \<and>
   calculateDuration (body_scheduledStart (minutes_body 0 526 (Val ''K'')))
     (body_scheduledEnd (minutes_body 0 526 (Val ''K''))) = Num (4935194591660169 / 562949953421312)"
proof -
  let ?s = "demo_store [demo_activity ''A'' 10 14 None VERIFIED, demo_activity ''B'' 20 23 None VERIFIED]"
  let ?b = "demo_body 10 14 Undefined"
  let ?n = "(demo_body 10 14 Undefined)\<lparr>body_contractId := Null\<rparr>"
  let ?t = "demo_store [minutes_activity ''A'' 0 74 None VERIFIED]"
  let ?m = "minutes_body 0 526 (Val ''K'')"
  have valid: "validateActivity ?b = Inr ?b" "validateActivity ?n = Inr ?n"
    "validateActivity ?m = Inr ?m"
    by (simp_all add: validateActivity_def demo_defs minutes_body_def minute_def)
  have link: "body_contractId ?b = Val ''K''" "''K'' \<noteq> []" "body_contractId ?n = Null"
    "body_contractId ?m = Val ''K''"
    by (simp_all add: demo_defs minutes_body_def)
  have contract: "contract_findUnique ''K'' ?s = Some demo_contract"
    "contract_findUnique ''K'' ?t = Some demo_contract"
    by (simp_all add: contract_findUnique_def demo_defs)
  have edited: "activity_findUnique ''A'' ?s = Some (demo_activity ''A'' 10 14 None VERIFIED)"
    "activity_findUnique ''A'' ?t = Some (minutes_activity ''A'' 0 74 None VERIFIED)"
    by (simp_all add: activity_findUnique_def demo_defs minutes_activity_def)
  have linked: "contractId (demo_activity ''A'' 10 14 None VERIFIED) = Some ''K''"
    "contractId (minutes_activity ''A'' 0 74 None VERIFIED) = Some ''K''"
    by (simp_all add: demo_defs minutes_activity_def)
  have st: "status (demo_activity ''A'' 10 14 None VERIFIED) = VERIFIED \<or>
            status (demo_activity ''A'' 10 14 None VERIFIED) = INVOICED"
    "status (minutes_activity ''A'' 0 74 None VERIFIED) = VERIFIED \<or>
     status (minutes_activity ''A'' 0 74 None VERIFIED) = INVOICED"
    by (simp_all add: demo_defs minutes_activity_def)
  have used: "usedHours ''K'' ?s = Num 7"
    by (simp add: usedHours_def counted_def demo_defs round64_exact)
  have d: "durationHours (demo_activity ''A'' 10 14 None VERIFIED) = Num 4"
    "calculateDuration (body_scheduledStart ?b) (body_scheduledEnd ?b) = Num 4"
    "totalHours demo_contract = Num 10"
    by (simp_all add: number_defs demo_defs)
  have used_t: "usedHours ''K'' ?t = Num (1388609885105903 / 1125899906842624)"
    by (simp add: usedHours_def counted_def demo_defs minutes_activity_def minute_def
        known_answers)
  have d_t: "calculateDuration (body_scheduledStart ?m) (body_scheduledEnd ?m) = Num (4935194591660169 / 562949953421312)"
    by (simp add: minutes_body_def minute_def known_answers)
  have rem_t: "fsub (Num 10) (Num (1388609885105903 / 1125899906842624)) = Num (616899323957521 / 70368744177664)"
    by (simp add: fsub_def known_answers)
  from update_counts_own_hours[OF valid(1) contract(1) edited(1) linked(1) link(2) st(1)] link(1)
  have "fgt (calculateDuration (body_scheduledStart ?b) (body_scheduledEnd ?b))
            (fsub (totalHours demo_contract) (usedHours ''K'' ?s)) \<longrightarrow>
        update ''A'' ?b ?s
          = (Inl (InsufficientHours (fsub (totalHours demo_contract) (usedHours ''K'' ?s))), ?s)"
    by blast
  then have r1: "update ''A'' ?b ?s = (Inl (InsufficientHours (Num 3)), ?s)"
    unfolding used d by (simp add: fsub_def round64_exact)
  from update_counts_own_hours[OF valid(2) contract(1) edited(1) linked(1) link(2) st(1)] link(3)
  have r2: "fst (update ''A'' ?n ?s) \<noteq> Inl (InsufficientHours (Num 3))"
    by blast
  from update_counts_own_hours[OF valid(3) contract(2) edited(2) linked(2) link(2) st(2)] link(4)
  have "fgt (calculateDuration (body_scheduledStart ?m) (body_scheduledEnd ?m))
            (fsub (totalHours demo_contract) (usedHours ''K'' ?t)) \<longrightarrow>
        update ''A'' ?m ?t
          = (Inl (InsufficientHours (fsub (totalHours demo_contract) (usedHours ''K'' ?t))), ?t)"
    by blast
  then have r3: "update ''A'' ?m ?t = (Inl (InsufficientHours (Num (616899323957521 / 70368744177664))), ?t)"
    unfolding used_t d_t d(3) rem_t by simp
  from r1 r2 r3 used d used_t d_t show ?thesis by simp
qed

text \<open>
  C10 as stated fails: an update of a contract-linked \<open>VERIFIED\<close> activity is not always
  checked. Contract \<open>K\<close> of 10 hours has two verified activities of 4 and 3 hours, so 3
  hours remain. An update of the first to 10 hours that gives \<open>contractId: null\<close> is
  accepted (the activity leaves the contract), and so is the same update without the key
  \<open>contractId\<close>, after which the contract counts 13 used hours of 10; with the contract
  named in the body that update is refused.
\<close>

theorem update_without_contract_counterexample:
  "contractId (demo_activity ''A'' 10 14 None VERIFIED) = Some ''K'' \<and>
   status (demo_activity ''A'' 10 14 None VERIFIED) = VERIFIED \<and>
   usedHours ''K''
     (demo_store [demo_activity ''A'' 10 14 None VERIFIED, demo_activity ''B'' 20 23 None VERIFIED])
     = Num 7 \<and>
   fgt (calculateDuration (hour 10) (hour 20)) (fsub (totalHours demo_contract) (Num 7)) \<and>
   update ''A'' ((demo_body 10 20 Undefined)\<lparr>body_contractId := Null\<rparr>)
     (demo_store [demo_activity ''A'' 10 14 None VERIFIED, demo_activity ''B'' 20 23 None VERIFIED])
   = (Inr ((demo_activity ''A'' 10 20 None VERIFIED)\<lparr>contractId := None\<rparr>),
      demo_store [(demo_activity ''A'' 10 20 None VERIFIED)\<lparr>contractId := None\<rparr>,
                  demo_activity ''B'' 20 23 None VERIFIED]) \<and>
   update ''A'' ((demo_body 10 20 Undefined)\<lparr>body_contractId := Undefined\<rparr>)
     (demo_store [demo_activity ''A'' 10 14 None VERIFIED, demo_activity ''B'' 20 23 None VERIFIED])
   = (Inr (demo_activity ''A'' 10 20 None VERIFIED),
      demo_store [demo_activity ''A'' 10 20 None VERIFIED, demo_activity ''B'' 20 23 None VERIFIED]) \<and>
   usedHours ''K''
     (demo_store [demo_activity ''A'' 10 20 None VERIFIED, demo_activity ''B'' 20 23 None VERIFIED])
     = Num 13 \<and>
   update ''A'' (demo_body 10 20 Undefined)
     (demo_store [demo_activity ''A'' 10 14 None VERIFIED, demo_activity ''B'' 20 23 None VERIFIED])
   = (Inl (InsufficientHours (Num 3)),
      demo_store [demo_activity ''A'' 10 14 None VERIFIED, demo_activity ''B'' 20 23 None VERIFIED])"
  by (simp add: handler_defs number_defs demo_defs Let_def)

end
